theory Spec2Isabelle
  imports Complex_Main
begin

section \<open>Numbers and their decimal strings\<close>

text \<open>
  The viewer (\<^verbatim>\<open>viewer.js\<close>) computes with JavaScript numbers. A finite number is
  modelled by the rational it denotes and the arithmetic is exact. For the range
  formatters this is what the code computes on whole meters: \<^verbatim>\<open>%\<close>, comparisons and
  the multiples of 1852/2^k are exact in binary floating point, and the quotients by
  1852 only reach \<^verbatim>\<open>Math.round\<close>, \<^verbatim>\<open>Math.floor\<close>, \<^verbatim>\<open>toFixed\<close> and a comparison with 10,
  none of which a rounding in the last binary place can change there.
\<close>

definition digit_char :: "nat \<Rightarrow> char" where
  "digit_char d =
     (if d = 0 then CHR ''0'' else if d = 1 then CHR ''1'' else if d = 2 then CHR ''2''
      else if d = 3 then CHR ''3'' else if d = 4 then CHR ''4'' else if d = 5 then CHR ''5''
      else if d = 6 then CHR ''6'' else if d = 7 then CHR ''7'' else if d = 8 then CHR ''8''
      else CHR ''9'')"

fun nat_str :: "nat \<Rightarrow> string" where
  "nat_str n = (if n < 10 then [digit_char n] else nat_str (n div 10) @ [digit_char (n mod 10)])"

declare nat_str.simps [simp del]

definition int_str :: "int \<Rightarrow> string" where
  "int_str i = (if i < 0 then ''-'' @ nat_str (nat (- i)) else nat_str (nat i))"

text \<open>
  \<^verbatim>\<open>Number::toString\<close> of a number with at most three decimal places, given in
  thousandths: the digits of the number itself, trailing zeros dropped.
\<close>

definition milli_str :: "int \<Rightarrow> string" where
  "milli_str m =
     (let n = nat \<bar>m\<bar>;
          d = [digit_char (n div 100 mod 10), digit_char (n div 10 mod 10), digit_char (n mod 10)]
      in (if m < 0 then ''-'' else '''') @ nat_str (n div 1000) @ ''.'' @
         rev (dropWhile (\<lambda>c. c = CHR ''0'') (rev d)))"

text \<open>
  String concatenation \<^verbatim>\<open>x + " m"\<close> converts the number with \<^verbatim>\<open>Number::toString\<close>, which
  prints the shortest decimal that reads back as the same double. For an integer that
  is its decimal numeral; for a number of at most three decimal places below 10^12 it
  is the number's own expansion. The digits of any other quotient depend on its binary
  rounding: they are the parameter \<open>shortest\<close>.
\<close>

definition js_number_str :: "(rat \<Rightarrow> string) \<Rightarrow> rat \<Rightarrow> string" where
  "js_number_str shortest q =
     (if q = of_int \<lfloor>q\<rfloor> then int_str \<lfloor>q\<rfloor>
      else if \<bar>q\<bar> < 10 ^ 12 \<and> q * 1000 = of_int \<lfloor>q * 1000\<rfloor> then milli_str \<lfloor>q * 1000\<rfloor>
      else shortest q)"

text \<open>A stand-in for \<open>shortest\<close> where no such quotient is printed.\<close>

definition unprinted :: "rat \<Rightarrow> string" where
  "unprinted q = ''?''"

text \<open>
  \<^verbatim>\<open>x.toFixed(f)\<close>: the sign first, then the integer \<open>n\<close> nearest to \<open>|x| * 10^f\<close>
  (the larger one on a tie), printed with \<open>f\<close> digits after the point.
\<close>

definition pad_zeros :: "nat \<Rightarrow> string \<Rightarrow> string" where
  "pad_zeros f s = replicate (f - length s) (CHR ''0'') @ s"

definition toFixed :: "nat \<Rightarrow> rat \<Rightarrow> string" where
  "toFixed f x =
     (let n = nat \<lfloor>\<bar>x\<bar> * 10 ^ f + 1 / 2\<rfloor>
      in (if x < 0 then ''-'' else '''') @ nat_str (n div 10 ^ f) @
         (if f = 0 then '''' else ''.'' @ pad_zeros f (nat_str (n mod 10 ^ f))))"

text \<open>\<^verbatim>\<open>Math.round\<close> rounds to the nearest integer, a half upwards.\<close>

definition Math_round :: "rat \<Rightarrow> int" where
  "Math_round x = \<lfloor>x + 1 / 2\<rfloor>"

definition Math_floor :: "rat \<Rightarrow> int" where
  "Math_floor x = \<lfloor>x\<rfloor>"

text \<open>\<^verbatim>\<open>a % b\<close>: the remainder of the division truncated towards zero (the sign of \<open>a\<close>).\<close>

definition js_trunc :: "rat \<Rightarrow> int" where
  "js_trunc x = (if x < 0 then - \<lfloor>- x\<rfloor> else \<lfloor>x\<rfloor>)"

definition js_rem :: "rat \<Rightarrow> rat \<Rightarrow> rat" where
  "js_rem a b = a - b * of_int (js_trunc (a / b))"


section \<open>Unit formatter\<close>

definition NAUTICAL_MILE :: rat where
  "NAUTICAL_MILE = 1852"

definition divides_near :: "rat \<Rightarrow> rat \<Rightarrow> bool" where
  "divides_near a b = (let remainder = js_rem a b in remainder \<le> 1 \<or> remainder \<ge> b - 1)"

definition is_metric :: "rat \<Rightarrow> bool" where
  "is_metric v =
     (if v \<le> 100 then divides_near v 25
      else if v \<le> 750 then divides_near v 50
      else divides_near v 500)"

text \<open>The loop of \<^verbatim>\<open>formatRangeNautical\<close> over the denominators; \<open>None\<close> when it falls through.\<close>

fun nautical_fraction :: "rat \<Rightarrow> nat list \<Rightarrow> string option" where
  "nautical_fraction v [] = None"
| "nautical_fraction v (denom # rest) =
     (let fraction = NAUTICAL_MILE / of_nat denom;
          numerator = Math_round (v / fraction);
          error = \<bar>v - of_int numerator * fraction\<bar>
      in if error < fraction * (1 / 10) \<and> numerator > 0
         then Some (int_str numerator @ ''/'' @ nat_str denom @ '' nm'')
         else nautical_fraction v rest)"

definition denominators :: "nat list" where
  "denominators = [128, 64, 32, 16, 8, 4, 2]"

definition formatRangeNautical :: "rat \<Rightarrow> string" where
  "formatRangeNautical v =
     (if v \<ge> NAUTICAL_MILE then
        (let nm = v / NAUTICAL_MILE in
         if nm \<ge> 10 then int_str (Math_round nm) @ '' nm''
         else
           (let rounded = of_int (Math_round (nm * 2)) / 2 in
            if rounded = of_int (Math_floor rounded) then int_str (Math_floor rounded) @ '' nm''
            else toFixed 1 rounded @ '' nm''))
      else
        (case nautical_fraction v denominators of
           Some s \<Rightarrow> s
         | None \<Rightarrow> toFixed 2 (v / NAUTICAL_MILE) @ '' nm''))"

definition formatRangeValue :: "(rat \<Rightarrow> string) \<Rightarrow> string \<Rightarrow> rat \<Rightarrow> string" where
  "formatRangeValue shortest brand v0 =
     (let v = of_int (Math_round v0) in
      if brand = ''Navico'' then
        (if v < 1000 then js_number_str shortest v @ '' m'' else formatRangeNautical v)
      else if is_metric v then
        (if v \<ge> 1000 then js_number_str shortest (v / 1000) @ '' km''
         else js_number_str shortest v @ '' m'')
      else if v \<ge> NAUTICAL_MILE - 1 then
        (if divides_near v NAUTICAL_MILE
         then int_str (Math_floor ((v + 1) / NAUTICAL_MILE)) @ '' nm''
         else js_number_str shortest (v / NAUTICAL_MILE) @ '' nm'')
      else if divides_near v (NAUTICAL_MILE / 2)
        then int_str (Math_floor ((v + 1) / (NAUTICAL_MILE / 2))) @ ''/2 nm''
      else if divides_near v (NAUTICAL_MILE / 4)
        then int_str (Math_floor ((v + 1) / (NAUTICAL_MILE / 4))) @ ''/4 nm''
      else if divides_near v (NAUTICAL_MILE / 8)
        then int_str (Math_floor ((v + 1) / (NAUTICAL_MILE / 8))) @ ''/8 nm''
      else if divides_near v (NAUTICAL_MILE / 16)
        then int_str (Math_floor ((v + 1) / (NAUTICAL_MILE / 16))) @ ''/16 nm''
      else if divides_near v (NAUTICAL_MILE / 32)
        then int_str (Math_floor ((v + 1) / (NAUTICAL_MILE / 32))) @ ''/32 nm''
      else if divides_near v (NAUTICAL_MILE / 64)
        then int_str (Math_floor ((v + 1) / (NAUTICAL_MILE / 64))) @ ''/64 nm''
      else if divides_near v (NAUTICAL_MILE / 128)
        then int_str (Math_floor ((v + 1) / (NAUTICAL_MILE / 128))) @ ''/128 nm''
      else js_number_str shortest (v / NAUTICAL_MILE) @ '' nm'')"

subsection \<open>The formatter as the specification words it\<close>

text \<open>
  Second definitions, written from the specification's sentences and compared with
  the code's below. \<open>near_multiple\<close> and \<open>heuristic_metric\<close> are the divisibility
  heuristic; \<open>mod\<close> is read as the code's \<^verbatim>\<open>%\<close>.
\<close>

definition near_multiple :: "rat \<Rightarrow> rat \<Rightarrow> bool" where
  "near_multiple v b = (js_rem v b \<le> 1 \<or> js_rem v b \<ge> b - 1)"

definition heuristic_metric :: "rat \<Rightarrow> bool" where
  "heuristic_metric v =
     ((v \<le> 100 \<and> near_multiple v 25) \<or> (100 < v \<and> v \<le> 750 \<and> near_multiple v 50) \<or>
      (750 < v \<and> near_multiple v 500))"

text \<open>
  Navico below one nautical mile: denominator \<open>d\<close> is taken when the rounded numerator
  is positive and, multiplied back by 1852/d, lies within 10% of 1852/d of \<open>v\<close>.
\<close>

definition fraction_accepted :: "rat \<Rightarrow> nat \<Rightarrow> bool" where
  "fraction_accepted v d =
     (let unit = 1852 / of_nat d; n = Math_round (v / unit)
      in 0 < n \<and> \<bar>v - of_int n * unit\<bar> < unit / 10)"

text \<open>A count \<open>h\<close> of half miles as an integer or a one-decimal value.\<close>

definition half_nm_str :: "int \<Rightarrow> string" where
  "half_nm_str h = (if even h then int_str (h div 2) else int_str (h div 2) @ ''.5'')"

definition spec_formatRange_Navico :: "rat \<Rightarrow> string" where
  "spec_formatRange_Navico v0 =
     (let m = Math_round v0; v = of_int m in
      if m < 1000 then int_str m @ '' m''
      else if 1852 \<le> m then
        (if 18520 \<le> m then int_str (Math_round (v / 1852)) @ '' nm''
         else half_nm_str (Math_round (v / 926)) @ '' nm'')
      else
        (case find (fraction_accepted v) [128, 64, 32, 16, 8, 4, 2] of
           Some d \<Rightarrow> int_str (Math_round (v * of_nat d / 1852)) @ ''/'' @ nat_str d @ '' nm''
         | None \<Rightarrow> toFixed 2 (v / 1852) @ '' nm''))"

text \<open>
  The other brands' nautical rendering as the specification states it: the first
  matching fraction among whole miles, halves, quarters, ..., 1/128, whatever \<open>v\<close> is.
\<close>

definition fraction_str :: "rat \<Rightarrow> nat \<Rightarrow> string" where
  "fraction_str v d =
     int_str \<lfloor>(v + 1) / (1852 / of_nat d)\<rfloor> @
     (if d = 1 then '' nm'' else ''/'' @ nat_str d @ '' nm'')"

definition spec_nautical_str :: "(rat \<Rightarrow> string) \<Rightarrow> rat \<Rightarrow> string" where
  "spec_nautical_str shortest v =
     (case find (\<lambda>d. near_multiple v (1852 / of_nat d)) [1, 2, 4, 8, 16, 32, 64, 128] of
        Some d \<Rightarrow> fraction_str v d
      | None \<Rightarrow> js_number_str shortest (v / 1852) @ '' nm'')"

text \<open>
  What the code does: from 1851 m on only whole miles are tested, below 1851 m only
  the fractions from halves down to 1/128.
\<close>

definition guarded_nautical_str :: "(rat \<Rightarrow> string) \<Rightarrow> rat \<Rightarrow> string" where
  "guarded_nautical_str shortest v =
     (if 1851 \<le> v then
        (if near_multiple v 1852 then fraction_str v 1
         else js_number_str shortest (v / 1852) @ '' nm'')
      else
        (case find (\<lambda>d. near_multiple v (1852 / of_nat d)) [2, 4, 8, 16, 32, 64, 128] of
           Some d \<Rightarrow> fraction_str v d
         | None \<Rightarrow> js_number_str shortest (v / 1852) @ '' nm''))"

definition metric_str :: "(rat \<Rightarrow> string) \<Rightarrow> int \<Rightarrow> string" where
  "metric_str shortest m =
     (if 1000 \<le> m then js_number_str shortest (of_int m / 1000) @ '' km''
      else int_str m @ '' m'')"

definition spec_formatRange_other :: "(rat \<Rightarrow> string) \<Rightarrow> rat \<Rightarrow> string" where
  "spec_formatRange_other shortest v0 =
     (let m = Math_round v0 in
      if heuristic_metric (of_int m) then metric_str shortest m
      else spec_nautical_str shortest (of_int m))"

definition guarded_formatRange_other :: "(rat \<Rightarrow> string) \<Rightarrow> rat \<Rightarrow> string" where
  "guarded_formatRange_other shortest v0 =
     (let m = Math_round v0 in
      if heuristic_metric (of_int m) then metric_str shortest m
      else guarded_nautical_str shortest (of_int m))"


section \<open>Colour legend\<close>

text \<open>
  \<^verbatim>\<open>buildMayaraLegend\<close> divides by \<^verbatim>\<open>pixelValues - 2\<close>, so here a number is a finite
  value, an infinity or NaN, with the IEEE 754 rules for them (the sign of a zero is not
  kept: a zero divisor counts as +0). Finite arithmetic is exact, as above; the facts
  proved about the legend rest on comparisons and on quotients that are exact in
  binary floating point as well. Inside the gradient the exact value can differ from the
  code's by one where a double rounds to just below a whole number before
  \<^verbatim>\<open>Math.floor\<close>: for 32 pixel values the blue channel at index 13 is 102 here and 101
  in the code. No entry a theorem below names is of that kind.
\<close>

datatype jsnum = Fin rat | PInf | NInf | NaN

fun js_is_neg :: "jsnum \<Rightarrow> bool" where
  "js_is_neg (Fin a) = (a < 0)"
| "js_is_neg NInf = True"
| "js_is_neg _ = False"

fun js_neg :: "jsnum \<Rightarrow> jsnum" where
  "js_neg (Fin a) = Fin (- a)"
| "js_neg PInf = NInf"
| "js_neg NInf = PInf"
| "js_neg NaN = NaN"

fun js_add :: "jsnum \<Rightarrow> jsnum \<Rightarrow> jsnum" where
  "js_add (Fin a) (Fin b) = Fin (a + b)"
| "js_add NaN _ = NaN"
| "js_add _ NaN = NaN"
| "js_add PInf NInf = NaN"
| "js_add NInf PInf = NaN"
| "js_add PInf _ = PInf"
| "js_add _ PInf = PInf"
| "js_add NInf _ = NInf"
| "js_add _ NInf = NInf"

definition js_sub :: "jsnum \<Rightarrow> jsnum \<Rightarrow> jsnum" where
  "js_sub a b = js_add a (js_neg b)"

fun js_mul :: "jsnum \<Rightarrow> jsnum \<Rightarrow> jsnum" where
  "js_mul (Fin a) (Fin b) = Fin (a * b)"
| "js_mul NaN _ = NaN"
| "js_mul _ NaN = NaN"
| "js_mul x y =
     (if x = Fin 0 \<or> y = Fin 0 then NaN
      else if js_is_neg x = js_is_neg y then PInf else NInf)"

fun js_div :: "jsnum \<Rightarrow> jsnum \<Rightarrow> jsnum" where
  "js_div NaN _ = NaN"
| "js_div _ NaN = NaN"
| "js_div (Fin a) (Fin b) =
     (if b \<noteq> 0 then Fin (a / b)
      else if a = 0 then NaN else if a > 0 then PInf else NInf)"
| "js_div (Fin a) _ = Fin 0"
| "js_div x (Fin b) = (if js_is_neg x = (b < 0) then PInf else NInf)"
| "js_div _ _ = NaN"

fun js_lt :: "jsnum \<Rightarrow> jsnum \<Rightarrow> bool" where
  "js_lt NaN _ = False"
| "js_lt _ NaN = False"
| "js_lt (Fin a) (Fin b) = (a < b)"
| "js_lt _ NInf = False"
| "js_lt NInf _ = True"
| "js_lt PInf _ = False"
| "js_lt _ PInf = True"

fun js_le :: "jsnum \<Rightarrow> jsnum \<Rightarrow> bool" where
  "js_le NaN _ = False"
| "js_le _ NaN = False"
| "js_le a b = (a = b \<or> js_lt a b)"

fun js_floor :: "jsnum \<Rightarrow> jsnum" where
  "js_floor (Fin a) = Fin (of_int \<lfloor>a\<rfloor>)"
| "js_floor x = x"

text \<open>The body of the loop for index \<open>i\<close>: the entry \<^verbatim>\<open>[r, g, b, alpha]\<close> pushed.\<close>

definition legend_entry :: "jsnum \<Rightarrow> nat \<Rightarrow> jsnum list" where
  "legend_entry pixelValues i =
     (let (r, g, b) =
        (if i = 0 then (Fin 0, Fin 0, Fin 0)
         else if js_lt (Fin (of_nat i)) pixelValues then
           (let t = js_div (js_sub (Fin (of_nat i)) (Fin 1)) (js_sub pixelValues (Fin 2)) in
            if js_lt t (Fin (1 / 4)) then
              (let local = js_div t (Fin (1 / 4)) in
               (Fin 0, js_floor (js_add (Fin 85) (js_mul (Fin 170) local)), Fin 255))
            else if js_lt t (Fin (1 / 2)) then
              (let local = js_div (js_sub t (Fin (1 / 4))) (Fin (1 / 4)) in
               (Fin 0, Fin 255, js_floor (js_mul (Fin 255) (js_sub (Fin 1) local))))
            else if js_lt t (Fin (3 / 4)) then
              (let local = js_div (js_sub t (Fin (1 / 2))) (Fin (1 / 4)) in
               (js_floor (js_mul (Fin 255) local), Fin 255, Fin 0))
            else
              (let local = js_div (js_sub t (Fin (3 / 4))) (Fin (1 / 4)) in
               (Fin 255, js_floor (js_mul (Fin 255) (js_sub (Fin 1) local)), Fin 0)))
         else (Fin 255, Fin 0, Fin 0))
      in [r, g, b, if i = 0 then Fin 0 else Fin 255])"

text \<open>
  The parameter's default (\<open>None\<close> is a call without the argument) and the guard
  \<^verbatim>\<open>if (pixelValues < 2) pixelValues = 64\<close>.
\<close>

definition clamp_pixelValues :: "jsnum option \<Rightarrow> jsnum" where
  "clamp_pixelValues arg =
     (let pixelValues = (case arg of None \<Rightarrow> Fin 64 | Some p \<Rightarrow> p)
      in if js_lt pixelValues (Fin 2) then Fin 64 else pixelValues)"

definition buildMayaraLegend :: "jsnum option \<Rightarrow> jsnum list list" where
  "buildMayaraLegend arg = map (legend_entry (clamp_pixelValues arg)) [0..<256]"

definition transparent_black :: "jsnum list" where
  "transparent_black = [Fin 0, Fin 0, Fin 0, Fin 0]"

definition saturated_red :: "jsnum list" where
  "saturated_red = [Fin 255, Fin 0, Fin 0, Fin 255]"


section \<open>Program state and the calls it makes\<close>

text \<open>
  The render surface (\<^verbatim>\<open>render_webgpu.js\<close>), the control-plane client (\<^verbatim>\<open>control.js\<close>),
  the schema decoder and the console are collaborators outside this file. Every call
  the viewer makes to one of them is recorded, in order, in the state's \<open>calls\<close>; what
  the viewer reads from them is an input of the model. A call to a collaborator returns
  normally and does not call back into the viewer before it returns; the schema's
  decoder alone may throw.
\<close>

datatype exn = TypeError | DecodeError string

record spoke =
  sp_angle :: int
  sp_range :: int
  sp_data :: "nat list"

text \<open>A decoded message is its \<^verbatim>\<open>spokes\<close>; a missing field and an empty list take the same branch.\<close>

type_synonym message = "spoke list"

record descriptor =
  radar_id :: string
  maxSpokeLen :: int
  spokesPerRevolution :: int
  pixelValues :: "jsnum option"
  brand :: string
  streamUrl :: "string option"
  controls :: "string list"

text \<open>
  What the radar callback may be handed: \<^verbatim>\<open>undefined\<close>, an object whose \<^verbatim>\<open>controls\<close> is
  \<^verbatim>\<open>undefined\<close>, or a session descriptor (which carries \<^verbatim>\<open>controls\<close>).
\<close>

datatype radar_arg = RUndefined | RNoControls | RDescriptor descriptor

definition num :: "int \<Rightarrow> jsnum" where
  "num i = Fin (of_int i)"

datatype call =
    SetLegend "jsnum list list"
  | SetSpokes int int
  | SetPixelValues "jsnum option"
  | SetBrand string
  | SetStandbyMode bool jsnum jsnum bool bool
  | NewWebSocket string
  | DrawSpoke spoke
  | SetRange jsnum
  | SetCurrentRange jsnum
  | Render
  | LoadRadar "string option"
  | ConsoleLog string
  | ConsoleWarn string
  | ConsoleError string

text \<open>
  An entry of \<^verbatim>\<open>noTransmitAngles\<close>: a hole or \<^verbatim>\<open>undefined\<close>, \<^verbatim>\<open>null\<close>, or an object with
  the slots 0 (start) and 1 (end).
\<close>

datatype zone = ZUndefined | ZNull | Zone "jsnum option" "jsnum option"

record renderer_obj =
  ready :: bool

record state =
  renderer :: "renderer_obj option"
  RadarMessage :: "(nat list \<Rightarrow> string + message) option"
  pendingRadarData :: "descriptor option"
  noTransmitAngles :: "zone list"
  messageCount :: nat
  lastLogTime :: int
  prev_angle :: int
  calls :: "call list"

text \<open>What the viewer reads from the page and from \<^verbatim>\<open>control.js\<close>.\<close>

record env =
  location_protocol :: string
  location_host :: string
  getPowerState :: string
  getOperatingHours :: "jsnum \<times> jsnum"
  hasHoursCapability :: "bool \<times> bool"

definition emit :: "call \<Rightarrow> state \<Rightarrow> state" where
  "emit c st = st\<lparr>calls := calls st @ [c]\<rparr>"


section \<open>Readiness gate and session construction\<close>

definition resolve_streamUrl :: "env \<Rightarrow> descriptor \<Rightarrow> string" where
  "resolve_streamUrl e r =
     (let synthesized =
            (if location_protocol e = ''https:'' then ''wss:'' else ''ws:'') @ ''//'' @
            location_host e @ ''/signalk/v2/api/vessels/self/radars/'' @ radar_id r @ ''/stream''
      in case streamUrl r of
           None \<Rightarrow> synthesized
         | Some u \<Rightarrow> if u = [] \<or> u = ''undefined'' \<or> u = ''null'' then synthesized else u)"

text \<open>
  \<^verbatim>\<open>radarLoaded\<close> past its guards: configure the render surface, open the socket and
  start the closure's counters (\<open>now\<close> is \<^verbatim>\<open>Date.now()\<close>). The counters of the socket's
  handlers live in the state: one session is current at a time.
\<close>

definition open_session :: "env \<Rightarrow> int \<Rightarrow> descriptor \<Rightarrow> state \<Rightarrow> state" where
  "open_session e now r st =
     (let isStandby = (getPowerState e = ''standby'' \<or> getPowerState e = ''off'');
          url = resolve_streamUrl e r;
          cs = [SetLegend (buildMayaraLegend (pixelValues r)),
                SetSpokes (spokesPerRevolution r) (maxSpokeLen r),
                SetPixelValues (pixelValues r),
                SetBrand (brand r)] @
               (if isStandby
                then [SetStandbyMode True (fst (getOperatingHours e)) (snd (getOperatingHours e))
                        (fst (hasHoursCapability e)) (snd (hasHoursCapability e))]
                else []) @
               [ConsoleLog (''Connecting to radar stream: '' @ url), NewWebSocket url]
      in st\<lparr>calls := calls st @ cs, messageCount := 0, lastLogTime := now, prev_angle := - 1\<rparr>)"

definition renderer_is_ready :: "state \<Rightarrow> bool" where
  "renderer_is_ready st = (case renderer st of None \<Rightarrow> False | Some rd \<Rightarrow> ready rd)"

text \<open>
  \<^verbatim>\<open>radarLoaded(r)\<close>. The first statement reads \<^verbatim>\<open>r.maxSpokeLen\<close>, which throws on
  \<^verbatim>\<open>undefined\<close> before the guard is reached.
\<close>

definition radarLoaded :: "env \<Rightarrow> int \<Rightarrow> radar_arg \<Rightarrow> state \<Rightarrow> exn + state" where
  "radarLoaded e now r st =
     (case r of
        RUndefined \<Rightarrow> Inl TypeError
      | RNoControls \<Rightarrow> Inr st
      | RDescriptor d \<Rightarrow>
          if \<not> renderer_is_ready st then Inr (st\<lparr>pendingRadarData := Some d\<rparr>)
          else Inr (open_session e now d st))"

text \<open>
  The end of \<^verbatim>\<open>window.onload\<close>, after both promises have resolved: the pending
  descriptor is processed and the buffer emptied, or the radar is requested by the
  \<^verbatim>\<open>id\<close> of the page's query string (\<open>None\<close> when it has none).
\<close>

definition drain_pending :: "env \<Rightarrow> int \<Rightarrow> string option \<Rightarrow> state \<Rightarrow> exn + state" where
  "drain_pending e now ident st =
     (case pendingRadarData st of
        Some r \<Rightarrow>
          (case radarLoaded e now (RDescriptor r)
                  (emit (ConsoleLog ''Processing deferred radar data'') st) of
             Inl x \<Rightarrow> Inl x
           | Inr st' \<Rightarrow> Inr (st'\<lparr>pendingRadarData := None\<rparr>))
      | None \<Rightarrow> Inr (emit (LoadRadar ident) st))"


section \<open>Spoke stream session\<close>

text \<open>
  \<^verbatim>\<open>renderer.range\<close> is read between calls to the render surface. Its value is whatever
  the surface holds after the calls made so far: the parameter \<open>rr\<close>, from the calls to
  the value (\<open>None\<close> for \<^verbatim>\<open>undefined\<close>).
\<close>

definition dispatch_spoke :: "(call list \<Rightarrow> jsnum option) \<Rightarrow> spoke \<Rightarrow> state \<Rightarrow> state" where
  "dispatch_spoke rr spoke st =
     (let st1 = emit (DrawSpoke spoke) st;
          st2 = st1\<lparr>prev_angle := sp_angle spoke\<rparr>;
          st3 = (if sp_range spoke > 0 \<and> Some (num (sp_range spoke)) \<noteq> rr (calls st2)
                 then emit (SetRange (num (sp_range spoke)))
                        (emit (ConsoleLog (''Range update from spoke: '' @
                                 int_str (sp_range spoke) @ '' m'')) st2)
                 else st2)
      in if sp_range spoke > 0 then emit (SetCurrentRange (num (sp_range spoke))) st3 else st3)"

fun dispatch_spokes :: "(call list \<Rightarrow> jsnum option) \<Rightarrow> spoke list \<Rightarrow> state \<Rightarrow> state" where
  "dispatch_spokes rr [] st = st"
| "dispatch_spokes rr (spoke # rest) st = dispatch_spokes rr rest (dispatch_spoke rr spoke st)"

text \<open>The message counter and its log line every five seconds.\<close>

definition count_message :: "int \<Rightarrow> state \<Rightarrow> state" where
  "count_message now st =
     (let st1 = st\<lparr>messageCount := messageCount st + 1\<rparr>
      in if now - lastLogTime st1 > 5000
         then (emit (ConsoleLog (''WebSocket: received '' @ nat_str (messageCount st1) @
                       '' messages in last 5s'')) st1)
              \<lparr>messageCount := 0, lastLogTime := now\<rparr>
         else st1)"

text \<open>
  The body of the \<^verbatim>\<open>try\<close> block of \<^verbatim>\<open>webSocket.onmessage\<close> on a frame of bytes: the state
  it reaches and the exception it stops with, if any.
\<close>

definition onmessage_try ::
  "(call list \<Rightarrow> jsnum option) \<Rightarrow> int \<Rightarrow> nat list \<Rightarrow> state \<Rightarrow> state \<times> exn option" where
  "onmessage_try rr now data st =
     (let st1 = count_message now st; dataSize = length data in
      if dataSize = 0 then (emit (ConsoleWarn ''WS message received with 0 bytes'') st1, None)
      else
        (case RadarMessage st1 of
           None \<Rightarrow> (emit (ConsoleWarn ''RadarMessage not loaded yet, dropping message'') st1, None)
         | Some decode \<Rightarrow>
             (case decode data of
                Inl err \<Rightarrow> (st1, Some (DecodeError err))
              | Inr message \<Rightarrow>
                  if length message > 0
                  then (emit Render (dispatch_spokes rr message st1), None)
                  else (st1, None))))"

fun exn_text :: "exn \<Rightarrow> string" where
  "exn_text TypeError = ''TypeError''"
| "exn_text (DecodeError msg) = msg"

text \<open>The handler: the \<^verbatim>\<open>catch\<close> clause logs the exception and returns.\<close>

definition onmessage ::
  "(call list \<Rightarrow> jsnum option) \<Rightarrow> int \<Rightarrow> nat list \<Rightarrow> state \<Rightarrow> state" where
  "onmessage rr now data st =
     (case onmessage_try rr now data st of
        (st', None) \<Rightarrow> st'
      | (st', Some err) \<Rightarrow>
          emit (ConsoleError (''Error processing WebSocket message: '' @ exn_text err)) st')"

text \<open>Frames in arrival order, each with its \<^verbatim>\<open>Date.now()\<close>.\<close>

fun onmessages ::
  "(call list \<Rightarrow> jsnum option) \<Rightarrow> (int \<times> nat list) list \<Rightarrow> state \<Rightarrow> state" where
  "onmessages rr [] st = st"
| "onmessages rr ((now, data) # rest) st = onmessages rr rest (onmessage rr now data st)"


section \<open>No-transmit zone tracker\<close>

text \<open>Reading and writing a JavaScript array by index: a write past the end extends it.\<close>

definition array_get :: "zone list \<Rightarrow> nat \<Rightarrow> zone" where
  "array_get xs i = (if i < length xs then xs ! i else ZUndefined)"

definition array_set :: "zone list \<Rightarrow> nat \<Rightarrow> zone \<Rightarrow> zone list" where
  "array_set xs i v =
     (if i < length xs then xs[i := v]
      else xs @ replicate (i - length xs) ZUndefined @ [v])"

fun startsWith :: "string \<Rightarrow> string \<Rightarrow> bool" where
  "startsWith s [] = True"
| "startsWith [] (p # ps) = False"
| "startsWith (c # cs) (p # ps) = (c = p \<and> startsWith cs ps)"

fun str_includes :: "string \<Rightarrow> string \<Rightarrow> bool" where
  "str_includes [] p = (p = [])"
| "str_includes (c # cs) p = (startsWith (c # cs) p \<or> str_includes cs p)"

definition is_digit :: "char \<Rightarrow> bool" where
  "is_digit c = (c \<in> set ''0123456789'')"

definition digit_value :: "char \<Rightarrow> nat" where
  "digit_value c = of_char c - 48"

definition parseInt :: "string \<Rightarrow> nat" where
  "parseInt ds = foldl (\<lambda>n c. 10 * n + digit_value c) 0 ds"

text \<open>\<^verbatim>\<open>name.match(/(\d+)/)\<close>: the first run of digits, if the name has a digit.\<close>

definition first_digits :: "string \<Rightarrow> string" where
  "first_digits name = takeWhile is_digit (dropWhile (\<lambda>c. \<not> is_digit c) name)"

definition extractNoTxZone :: "string \<Rightarrow> nat" where
  "extractNoTxZone name =
     (case first_digits name of [] \<Rightarrow> 0 | d # ds \<Rightarrow> parseInt (d # ds))"

definition extractStartOrEnd :: "string \<Rightarrow> nat" where
  "extractStartOrEnd name = (if str_includes name ''start'' then 0 else 1)"

record control =
  name :: "string option"

record control_value =
  cv_id :: string
  cv_value :: string
  cv_enabled :: bool

text \<open>
  \<^verbatim>\<open>noTransmitAngles[idx][start_or_end] = value\<close>: the entry is read first, and setting
  a property of \<^verbatim>\<open>undefined\<close> or \<^verbatim>\<open>null\<close> throws a \<^verbatim>\<open>TypeError\<close>.
\<close>

definition zone_write :: "zone list \<Rightarrow> nat \<Rightarrow> nat \<Rightarrow> jsnum \<Rightarrow> exn + zone list" where
  "zone_write zs idx start_or_end v =
     (case array_get zs idx of
        Zone a b \<Rightarrow>
          Inr (array_set zs idx (if start_or_end = 0 then Zone (Some v) b else Zone a (Some v)))
      | _ \<Rightarrow> Inl TypeError)"

text \<open>
  \<^verbatim>\<open>controlUpdate(control, controlValue)\<close>; \<open>parseFloat\<close> is the runtime's conversion of the
  value's text to a number.
\<close>

definition control_range :: "(string \<Rightarrow> jsnum) \<Rightarrow> control option \<Rightarrow> control_value \<Rightarrow> state \<Rightarrow> state" where
  "control_range parseFloat c cv st =
     (case c of
        None \<Rightarrow> st
      | Some ctl \<Rightarrow>
          if name ctl = Some ''Range'' \<and> renderer st \<noteq> None
          then emit (SetRange (parseFloat (cv_value cv))) st else st)"

definition control_no_transmit ::
  "(string \<Rightarrow> jsnum) \<Rightarrow> control option \<Rightarrow> control_value \<Rightarrow> state \<Rightarrow> exn + state" where
  "control_no_transmit parseFloat c cv st =
     (case c of
        None \<Rightarrow> Inr st
      | Some ctl \<Rightarrow>
          (case name ctl of
             None \<Rightarrow> Inr st
           | Some n \<Rightarrow>
               if n \<noteq> [] \<and> startsWith n ''No Transmit'' then
                 (let v = parseFloat (cv_value cv);
                      idx = extractNoTxZone n;
                      start_or_end = extractStartOrEnd n
                  in if cv_enabled cv then
                       (case zone_write (noTransmitAngles st) idx start_or_end v of
                          Inl x \<Rightarrow> Inl x
                        | Inr zs \<Rightarrow> Inr (st\<lparr>noTransmitAngles := zs\<rparr>))
                     else Inr (st\<lparr>noTransmitAngles := array_set (noTransmitAngles st) idx ZNull\<rparr>))
               else Inr st))"

definition control_power :: "env \<Rightarrow> control_value \<Rightarrow> state \<Rightarrow> state" where
  "control_power e cv st =
     (if cv_id cv = ''power'' \<and> renderer st \<noteq> None
      then emit (SetStandbyMode (cv_value cv = ''standby'' \<or> cv_value cv = ''off'')
                   (fst (getOperatingHours e)) (snd (getOperatingHours e))
                   (fst (hasHoursCapability e)) (snd (hasHoursCapability e))) st
      else st)"

definition controlUpdate ::
  "(string \<Rightarrow> jsnum) \<Rightarrow> env \<Rightarrow> control option \<Rightarrow> control_value \<Rightarrow> state \<Rightarrow> exn + state" where
  "controlUpdate parseFloat e c cv st =
     (case control_no_transmit parseFloat c cv (control_range parseFloat c cv st) of
        Inl x \<Rightarrow> Inl x
      | Inr st' \<Rightarrow> Inr (control_power e cv st'))"

text \<open>
  The states of the program: \<^verbatim>\<open>noTransmitAngles\<close> starts as the empty array, and
  \<^verbatim>\<open>controlUpdate\<close> is the only code that writes to it.
\<close>

definition initial_state :: state where
  "initial_state =
     \<lparr>renderer = None, RadarMessage = None, pendingRadarData = None, noTransmitAngles = [],
      messageCount = 0, lastLogTime = 0, prev_angle = - 1, calls = []\<rparr>"

definition zones_never_objects :: "zone list \<Rightarrow> bool" where
  "zones_never_objects zs = list_all (\<lambda>z. z = ZUndefined \<or> z = ZNull) zs"


section \<open>Background overlay\<close>

text \<open>The values \<^verbatim>\<open>typeof\<close> tells apart, and its result (ECMAScript, 13.5.3).\<close>

datatype js_value =
    Undefined | Null | Boolean bool | Number jsnum | BigInt int | String string | Symbol
  | Function | Array "zone list" | Object

fun typeof :: "js_value \<Rightarrow> string" where
  "typeof Undefined = ''undefined''"
| "typeof Null = ''object''"
| "typeof (Boolean b) = ''boolean''"
| "typeof (Number n) = ''number''"
| "typeof (BigInt n) = ''bigint''"
| "typeof (String s) = ''string''"
| "typeof Symbol = ''symbol''"
| "typeof Function = ''function''"
| "typeof (Array zs) = ''object''"
| "typeof Object = ''object''"

text \<open>An angle of \<open>2 * pi * x\<close> radians, kept by its factor \<open>x\<close>.\<close>

datatype angle = TwoPiTimes jsnum

datatype ctx_call =
    SetTransform int int int int int int
  | ClearRect jsnum jsnum jsnum jsnum
  | FillStyle string
  | BeginPath
  | Arc jsnum jsnum jsnum angle angle
  | Fill
  | Font string
  | FillText string int int

record background =
  width :: jsnum
  height :: jsnum
  center_x :: jsnum
  center_y :: jsnum
  beam_length :: jsnum
  bg_spokesPerRevolution :: jsnum

fun truthy_num :: "jsnum option \<Rightarrow> bool" where
  "truthy_num None = False"
| "truthy_num (Some NaN) = False"
| "truthy_num (Some (Fin q)) = (q \<noteq> 0)"
| "truthy_num (Some _) = True"

definition slot_num :: "jsnum option \<Rightarrow> jsnum" where
  "slot_num x = (case x of None \<Rightarrow> NaN | Some v \<Rightarrow> v)"

text \<open>The callback of \<^verbatim>\<open>forEach\<close>: one filled arc for an entry \<^verbatim>\<open>e\<close> with \<^verbatim>\<open>e && e[0]\<close>.\<close>

fun zone_arc :: "background \<Rightarrow> zone \<Rightarrow> ctx_call list" where
  "zone_arc obj (Zone a b) =
     (if truthy_num a then
        [BeginPath,
         Arc (center_x obj) (center_y obj) (js_mul (beam_length obj) (Fin 2))
           (TwoPiTimes (js_div (slot_num a) (bg_spokesPerRevolution obj)))
           (TwoPiTimes (js_div (slot_num b) (bg_spokesPerRevolution obj))),
         Fill]
      else [])"
| "zone_arc obj _ = []"

text \<open>
  \<^verbatim>\<open>drawBackground(obj, txt)\<close>, given the value of the variable \<^verbatim>\<open>noTransmitAngles\<close>;
  \<^verbatim>\<open>forEach\<close> is a method of arrays only.
\<close>

definition drawBackground :: "js_value \<Rightarrow> background \<Rightarrow> string \<Rightarrow> exn + ctx_call list" where
  "drawBackground nta obj txt =
     (let before = [SetTransform 1 0 0 1 0 0,
                    ClearRect (Fin 0) (Fin 0) (width obj) (height obj),
                    FillStyle ''lightgrey''];
          after = [FillStyle ''lightblue'',
                   Font ''bold 16px/1 Verdana, Geneva, sans-serif'',
                   FillText txt 5 20]
      in if typeof nta = ''array'' then
           (case nta of
              Array zs \<Rightarrow> Inr (before @ concat (map (zone_arc obj) zs) @ after)
            | _ \<Rightarrow> Inl TypeError)
         else Inr (before @ after))"

definition is_arc_call :: "ctx_call \<Rightarrow> bool" where
  "is_arc_call c = (case c of Arc x y r a b \<Rightarrow> True | BeginPath \<Rightarrow> True | Fill \<Rightarrow> True | _ \<Rightarrow> False)"


section \<open>Reading the record of calls\<close>

text \<open>The calls made between an earlier state and a later one.\<close>

definition calls_since :: "state \<Rightarrow> state \<Rightarrow> call list" where
  "calls_since st st' = drop (length (calls st)) (calls st')"

fun drawn_spokes :: "call list \<Rightarrow> spoke list" where
  "drawn_spokes [] = []"
| "drawn_spokes (DrawSpoke s # cs) = s # drawn_spokes cs"
| "drawn_spokes (c # cs) = drawn_spokes cs"

fun current_ranges :: "call list \<Rightarrow> jsnum list" where
  "current_ranges [] = []"
| "current_ranges (SetCurrentRange r # cs) = r # current_ranges cs"
| "current_ranges (c # cs) = current_ranges cs"

text \<open>
  The calls the loop body makes for one spoke after the calls \<open>before\<close>, as the
  specification lists them: the draw; the range reconfiguration (with its log line)
  exactly when the spoke's range is positive and differs from the range the surface
  holds at that moment; the notification of the control layer whenever the range is
  positive.
\<close>

definition spoke_calls :: "(call list \<Rightarrow> jsnum option) \<Rightarrow> call list \<Rightarrow> spoke \<Rightarrow> call list" where
  "spoke_calls rr before s =
     [DrawSpoke s] @
     (if 0 < sp_range s \<and> Some (num (sp_range s)) \<noteq> rr (before @ [DrawSpoke s])
      then [ConsoleLog (''Range update from spoke: '' @ int_str (sp_range s) @ '' m''),
            SetRange (num (sp_range s))]
      else []) @
     (if 0 < sp_range s then [SetCurrentRange (num (sp_range s))] else [])"

text \<open>A render surface whose \<^verbatim>\<open>range\<close> is the value it was last set to.\<close>

fun last_set_range :: "call list \<Rightarrow> jsnum option" where
  "last_set_range [] = None"
| "last_set_range (c # cs) =
     (case last_set_range cs of
        Some r \<Rightarrow> Some r
      | None \<Rightarrow> (case c of SetRange r \<Rightarrow> Some r | _ \<Rightarrow> None))"

definition example_spoke :: "int \<Rightarrow> int \<Rightarrow> spoke" where
  "example_spoke a r = \<lparr>sp_angle = a, sp_range = r, sp_data = [1, 2, 3]\<rparr>"

definition example_descriptor :: "string \<Rightarrow> descriptor" where
  "example_descriptor ident =
     \<lparr>radar_id = ident, maxSpokeLen = 1024, spokesPerRevolution = 2048,
      pixelValues = Some (Fin 16), brand = ''Navico'', streamUrl = None, controls = []\<rparr>"

definition is_console :: "call \<Rightarrow> bool" where
  "is_console c =
     (case c of ConsoleLog m \<Rightarrow> True | ConsoleWarn m \<Rightarrow> True | ConsoleError m \<Rightarrow> True
      | _ \<Rightarrow> False)"

definition is_load_call :: "call \<Rightarrow> bool" where
  "is_load_call c = (case c of LoadRadar i \<Rightarrow> True | _ \<Rightarrow> False)"

text \<open>
  The session is as it was: the render surface, the schema, the pending buffer, the
  zones and the last angle are untouched (the message counter may have moved).
\<close>

definition same_session :: "state \<Rightarrow> state \<Rightarrow> bool" where
  "same_session st st' =
     (renderer st' = renderer st \<and> pendingRadarData st' = pendingRadarData st \<and>
      noTransmitAngles st' = noTransmitAngles st \<and> prev_angle st' = prev_angle st \<and>
      (case RadarMessage st of
         None \<Rightarrow> RadarMessage st' = None
       | Some decode \<Rightarrow> RadarMessage st' = Some decode))"

text \<open>
  A frame that carries no spokes to the render surface: no bytes, no schema yet, or
  bytes the schema's decoder rejects.
\<close>

definition bad_frame :: "state \<Rightarrow> nat list \<Rightarrow> bool" where
  "bad_frame st data =
     (data = [] \<or>
      (case RadarMessage st of
         None \<Rightarrow> True
       | Some decode \<Rightarrow> (case decode data of Inl err \<Rightarrow> True | Inr m \<Rightarrow> False)))"

definition example_spokes :: "spoke list" where
  "example_spokes = [example_spoke 0 100, example_spoke 1 100, example_spoke 2 0]"

definition example_decode :: "nat list \<Rightarrow> string + message" where
  "example_decode data = (if data = [7] then Inr example_spokes else Inl ''invalid wire type'')"

definition example_state :: state where
  "example_state =
     initial_state\<lparr>renderer := Some \<lparr>ready = True\<rparr>, RadarMessage := Some example_decode\<rparr>"

definition example_env :: env where
  "example_env =
     \<lparr>location_protocol = ''http:'', location_host = ''localhost:6502'',
      getPowerState = ''transmit'', getOperatingHours = (Fin 0, Fin 0),
      hasHoursCapability = (False, False)\<rparr>"


section \<open>Properties of the unit formatter\<close>

lemma js_number_str_of_int: "js_number_str shortest (of_int k) = int_str k"
  by (simp add: js_number_str_def)

lemma is_metric_heuristic: "is_metric v = heuristic_metric v"
  by (auto simp: is_metric_def heuristic_metric_def divides_near_def near_multiple_def Let_def)

lemma divides_near_eq: "divides_near v b = near_multiple v b"
  by (simp add: divides_near_def near_multiple_def Let_def)

lemma nautical_fraction_find:
  "nautical_fraction v ds =
     map_option (\<lambda>d. int_str (Math_round (v * of_nat d / 1852)) @ ''/'' @ nat_str d @ '' nm'')
       (find (fraction_accepted v) ds)"
  by (induction ds) (auto simp: fraction_accepted_def NAUTICAL_MILE_def Let_def)

lemma nat_str_digit: "n < 10 \<Longrightarrow> nat_str n = [digit_char n]"
  by (simp add: nat_str.simps)

lemma nat_str_denoms:
  "nat_str 2 = ''2''" "nat_str 4 = ''4''" "nat_str 8 = ''8''" "nat_str 16 = ''16''"
  "nat_str 32 = ''32''" "nat_str 64 = ''64''" "nat_str 128 = ''128''"
  by code_simp+

text \<open>\<^verbatim>\<open>toFixed(1)\<close> of an odd number of halves ends in \<^verbatim>\<open>.5\<close>.\<close>

lemma toFixed_half:
  assumes "0 \<le> k"
  shows "toFixed 1 (of_int (2 * k + 1) / 2) = int_str k @ ''.5''"
proof -
  have "\<bar>(of_int (2 * k + 1) :: rat) / 2\<bar> * 10 ^ 1 + 1 / 2 = of_int (10 * k + 5) + 1 / 2"
    using assms by (simp add: abs_if field_simps)
  then have "\<lfloor>\<bar>(of_int (2 * k + 1) :: rat) / 2\<bar> * 10 ^ 1 + 1 / 2\<rfloor> = 10 * k + 5"
    by (simp only: floor_eq_iff) simp
  then have n: "nat \<lfloor>\<bar>(of_int (2 * k + 1) :: rat) / 2\<bar> * 10 ^ 1 + 1 / 2\<rfloor> = 10 * nat k + 5"
    using assms by simp
  have neg: "\<not> (of_int (2 * k + 1) :: rat) / 2 < 0"
    using assms by (simp add: field_simps)
  show ?thesis
    unfolding toFixed_def Let_def n using assms neg
    by (simp add: int_str_def pad_zeros_def nat_str_digit digit_char_def)
qed

lemma half_rounded:
  fixes h :: int
  assumes "0 \<le> h"
  shows "(if (of_int h :: rat) / 2 = of_int (Math_floor (of_int h / 2))
          then int_str (Math_floor (of_int h / 2)) else toFixed 1 (of_int h / 2)) = half_nm_str h"
proof (cases "even h")
  case True
  then obtain k where k: "h = 2 * k" by (auto elim: evenE)
  then show ?thesis by (simp add: half_nm_str_def Math_floor_def)
next
  case False
  then obtain k where k: "h = 2 * k + 1" by (auto elim: oddE)
  with assms have k0: "0 \<le> k" by simp
  have fl: "\<lfloor>(of_int (2 * k + 1) :: rat) / 2\<rfloor> = k"
    by (simp only: floor_eq_iff) (simp add: field_simps)
  have ne: "(of_int (2 * k + 1) :: rat) / 2 \<noteq> of_int k"
    by (simp add: field_simps)
  have d: "(2 * k + 1) div 2 = k" by simp
  show ?thesis
    unfolding k using toFixed_half [OF k0] fl ne d
    by (simp add: half_nm_str_def Math_floor_def del: of_int_add of_int_mult)
qed

lemma formatRangeNautical_half:
  assumes "1852 \<le> v" and "v < 18520"
  shows "formatRangeNautical v = half_nm_str (Math_round (v / 926)) @ '' nm''"
proof -
  define h where "h = Math_round (v / 926)"
  have h0: "0 \<le> h"
    using assms(1) by (simp add: h_def Math_round_def)
  have e: "v / 1852 * 2 = v / 926" by simp
  have c2: "\<not> 10 \<le> v / 1852" using assms(2) by simp
  have "formatRangeNautical v =
      (if (of_int h :: rat) / 2 = of_int (Math_floor (of_int h / 2))
       then int_str (Math_floor (of_int h / 2)) @ '' nm''
       else toFixed 1 (of_int h / 2) @ '' nm'')"
    unfolding formatRangeNautical_def NAUTICAL_MILE_def Let_def e h_def
    using assms(1) c2 by (simp only: if_True if_False)
  also have "\<dots> =
      (if (of_int h :: rat) / 2 = of_int (Math_floor (of_int h / 2))
       then int_str (Math_floor (of_int h / 2))
       else toFixed 1 (of_int h / 2)) @ '' nm''"
    by (rule if_distrib [symmetric])
  also have "\<dots> = half_nm_str h @ '' nm''"
    by (simp only: half_rounded [OF h0])
  finally show ?thesis by (simp only: h_def)
qed

text \<open>
  Claim C4. For the brand Navico and every meters value, \<^verbatim>\<open>formatRangeValue\<close> rounds to
  the whole meter and prints meters below 1000; from one nautical mile on it prints
  whole miles from 10 nm and otherwise the nearest half mile, as an integer or with one
  decimal; below one mile it prints the first fraction of the denominators 128, 64, 32,
  16, 8, 4, 2, in this order, whose rounded positive numerator lies within 10% of
  1852/denominator of the value, and the mile value with two decimals when none does.
\<close>

theorem formatRangeValue_Navico:
  "formatRangeValue shortest ''Navico'' v0 = spec_formatRange_Navico v0"
proof -
  define m where "m = Math_round v0"
  show ?thesis
  proof (cases "m < 1000")
    case True
    then show ?thesis
      by (simp add: formatRangeValue_def spec_formatRange_Navico_def Let_def m_def [symmetric]
          js_number_str_of_int)
  next
    case big: False
    show ?thesis
    proof (cases "1852 \<le> m")
      case False
      with big show ?thesis
        by (simp add: formatRangeValue_def spec_formatRange_Navico_def Let_def m_def [symmetric]
            formatRangeNautical_def NAUTICAL_MILE_def nautical_fraction_find denominators_def
            split: option.splits)
    next
      case True
      then have v: "(1852::rat) \<le> of_int m" by linarith
      show ?thesis
      proof (cases "18520 \<le> m")
        case True
        then have "(18520::rat) \<le> of_int m" by linarith
        with True v big show ?thesis
          by (simp add: formatRangeValue_def spec_formatRange_Navico_def Let_def m_def [symmetric]
            formatRangeNautical_def NAUTICAL_MILE_def)
      next
        case False
        then have lt: "(of_int m :: rat) < 18520" by linarith
        from False \<open>1852 \<le> m\<close> big show ?thesis
          by (simp add: formatRangeValue_def spec_formatRange_Navico_def Let_def m_def [symmetric]
            formatRangeNautical_half [OF v lt])
      qed
    qed
  qed
qed

text \<open>The rule at 3/4 nm, at 1.5 nm and at a value no fraction fits.\<close>

theorem formatRangeValue_Navico_witness:
  "spec_formatRange_Navico 1389 = ''96/128 nm'' \<and> spec_formatRange_Navico 2778 = ''1.5 nm'' \<and>
   spec_formatRange_Navico 1205 = ''0.65 nm'' \<and> spec_formatRange_Navico 500 = ''500 m''"
  unfolding formatRangeValue_Navico [of unprinted, symmetric] by code_simp

text \<open>
  For any other brand the code is the guarded rule: the divisibility heuristic, then
  whole miles only from 1851 m on and the fractions only below.
\<close>

lemma formatRangeValue_guarded:
  assumes "br \<noteq> ''Navico''"
  shows "formatRangeValue shortest br v0 = guarded_formatRange_other shortest v0"
proof -
  define m where "m = Math_round v0"
  show ?thesis
  proof (cases "heuristic_metric (of_int m)")
    case True
    then show ?thesis using assms
      by (simp add: formatRangeValue_def guarded_formatRange_other_def Let_def m_def [symmetric]
          is_metric_heuristic metric_str_def js_number_str_of_int)
  next
    case False
    show ?thesis
    proof (cases "1851 \<le> m")
      case True
      then have "(1851::rat) \<le> of_int m" by linarith
      with False assms show ?thesis
      by (simp add: formatRangeValue_def guarded_formatRange_other_def Let_def m_def [symmetric]
          is_metric_heuristic guarded_nautical_str_def NAUTICAL_MILE_def divides_near_eq
          fraction_str_def Math_floor_def)
    next
      case False
      then have "\<not> (1851::rat) \<le> of_int m" by linarith
      with \<open>\<not> heuristic_metric (of_int m)\<close> assms show ?thesis
      by (simp add: formatRangeValue_def guarded_formatRange_other_def Let_def m_def [symmetric]
          is_metric_heuristic guarded_nautical_str_def NAUTICAL_MILE_def divides_near_eq
          fraction_str_def Math_floor_def nat_str_denoms)
    qed
  qed
qed

lemma guarded_examples:
  "guarded_formatRange_other shortest 500 = ''500 m''"
  "guarded_formatRange_other shortest 1000 = ''1 km''"
  "guarded_formatRange_other shortest 1852 = ''1 nm''"
  "guarded_formatRange_other shortest 926 = ''1/2 nm''"
  "guarded_formatRange_other shortest (463 / 2) = ''1/8 nm''"
  by code_simp+

text \<open>
  Claim C5, as the specification states it, fails: 2778 m (1.5 nm) is not metric and
  is near a multiple of half a mile, so the stated search returns \<^verbatim>\<open>3/2 nm\<close>; the
  code tests fractions only below 1851 m and prints the decimal \<^verbatim>\<open>1.5 nm\<close>.
\<close>

theorem formatRangeValue_other_counterexample:
  "\<not> heuristic_metric 2778 \<and> near_multiple 2778 (1852 / 2) \<and>
   spec_formatRange_other unprinted 2778 = ''3/2 nm'' \<and>
   formatRangeValue unprinted ''Furuno'' 2778 = ''1.5 nm'' \<and>
   formatRangeValue unprinted ''Furuno'' 2778 \<noteq> spec_formatRange_other unprinted 2778"
  by code_simp

text \<open>
  Claim C5, amended. For every brand other than Navico and every meters value, rounded
  to the whole meter first: the value is metric by the divisibility heuristic (near a
  multiple of 25 up to 100, of 50 up to 750, of 500 above) and is then printed in km
  from 1000 m and in meters below; a nautical value of at least 1851 m is printed in
  whole miles when near a multiple of 1852 and as a decimal mile value otherwise; a
  nautical value below 1851 m is printed as the first matching fraction among halves,
  quarters, ..., 1/128, and as a decimal mile value when none matches. 500 gives
  \<^verbatim>\<open>500 m\<close>, 1000 gives \<^verbatim>\<open>1 km\<close> and 1852 gives \<^verbatim>\<open>1 nm\<close>.
\<close>

theorem formatRangeValue_other_brands:
  assumes "br \<noteq> ''Navico''"
  shows "formatRangeValue shortest br v0 = guarded_formatRange_other shortest v0 \<and>
         formatRangeValue shortest br 500 = ''500 m'' \<and>
         formatRangeValue shortest br 1000 = ''1 km'' \<and>
         formatRangeValue shortest br 1852 = ''1 nm''"
  using assms by (simp add: formatRangeValue_guarded guarded_examples)

theorem formatRangeValue_other_brands_witness:
  "''Furuno'' \<noteq> ''Navico'' \<and>
   formatRangeValue unprinted ''Furuno'' 1389 = guarded_formatRange_other unprinted 1389 \<and>
   formatRangeValue unprinted ''Furuno'' 1389 = ''3/4 nm'' \<and>
   formatRangeValue unprinted ''Furuno'' 500 = ''500 m'' \<and>
   formatRangeValue unprinted ''Furuno'' 1000 = ''1 km'' \<and>
   formatRangeValue unprinted ''Furuno'' 1852 = ''1 nm''"
proof -
  have h: "''Furuno'' \<noteq> ''Navico''" by simp
  have v: "guarded_formatRange_other unprinted 1389 = ''3/4 nm''" by code_simp
  show ?thesis
    using h v formatRangeValue_other_brands [OF h, of unprinted 1389] by simp
qed

text \<open>
  Under Navico both inputs are below 1000 m after rounding and are printed in meters;
  \<^verbatim>\<open>formatRangeNautical\<close>, which the Navico branch alone calls, and only from 1000 m
  on, never sees them.
\<close>

lemma Navico_short_ranges:
  "formatRangeValue shortest ''Navico'' 926 = ''926 m''"
  "formatRangeValue shortest ''Navico'' (463 / 2) = ''232 m''"
  by code_simp+

text \<open>
  Claim C6. The nautical formatting of \<^verbatim>\<open>formatRangeValue\<close>, which every brand other
  than Navico reaches for a value that is not metric, returns \<^verbatim>\<open>1/2 nm\<close> for 926 m (half
  of 1852) and \<^verbatim>\<open>1/8 nm\<close> for 231.5 m (1852/8, rounded to 232 m first); neither value is
  metric by the heuristic.
\<close>

theorem formatRangeValue_nautical_fractions:
  assumes "br \<noteq> ''Navico''"
  shows "\<not> is_metric 926 \<and> \<not> is_metric (of_int (Math_round (463 / 2))) \<and>
         formatRangeValue shortest br 926 = ''1/2 nm'' \<and>
         formatRangeValue shortest br (463 / 2) = ''1/8 nm''"
proof -
  have a: "\<not> is_metric 926" by code_simp
  have b: "\<not> is_metric (of_int (Math_round (463 / 2)))" by code_simp
  show ?thesis
    using assms a b by (simp add: formatRangeValue_guarded guarded_examples)
qed

theorem formatRangeValue_nautical_fractions_witness:
  "''Garmin'' \<noteq> ''Navico'' \<and>
   formatRangeValue unprinted ''Garmin'' 926 = ''1/2 nm'' \<and>
   formatRangeValue unprinted ''Garmin'' (463 / 2) = ''1/8 nm''"
proof -
  have h: "''Garmin'' \<noteq> ''Navico''" by simp
  show ?thesis
    using h formatRangeValue_nautical_fractions [OF h, of unprinted] by simp
qed


section \<open>Properties of the readiness gate\<close>

text \<open>
  The buffer \<^verbatim>\<open>pendingRadarData\<close> is one variable: empty or one descriptor. An argument
  that is not a session descriptor never reaches it.
\<close>

lemma radarLoaded_not_ready:
  "\<not> renderer_is_ready st \<Longrightarrow>
   radarLoaded e t (RDescriptor d) st = Inr (st\<lparr>pendingRadarData := Some d\<rparr>)"
  by (simp add: radarLoaded_def)

lemma radarLoaded_ready:
  "renderer_is_ready st \<Longrightarrow> radarLoaded e t (RDescriptor d) st = Inr (open_session e t d st)"
  by (simp add: radarLoaded_def)

lemma radarLoaded_no_controls: "radarLoaded e t RNoControls st = Inr st"
  by (simp add: radarLoaded_def)

lemma radarLoaded_undefined: "radarLoaded e t RUndefined st = Inl TypeError"
  by (simp add: radarLoaded_def)

lemma drain_nonempty:
  assumes "renderer_is_ready s" and "pendingRadarData s = Some d"
  shows "drain_pending e t ident s =
           Inr ((open_session e t d (emit (ConsoleLog ''Processing deferred radar data'') s))
                \<lparr>pendingRadarData := None\<rparr>)"
  using assms
  by (simp add: drain_pending_def radarLoaded_def renderer_is_ready_def emit_def)

lemma drain_empty:
  assumes "pendingRadarData s = None"
  shows "drain_pending e t ident s = Inr (emit (LoadRadar ident) s)"
  using assms by (simp add: drain_pending_def)

lemma drain_no_load:
  "filter is_load_call
     (calls_since s (open_session e t d (emit (ConsoleLog ''Processing deferred radar data'') s))) = []"
  by (simp add: open_session_def calls_since_def Let_def is_load_call_def emit_def)

lemma drain_leaves_empty:
  assumes "renderer_is_ready s"
  shows "case drain_pending e t ident s of Inl x \<Rightarrow> False | Inr s' \<Rightarrow> pendingRadarData s' = None"
proof (cases "pendingRadarData s")
  case None
  then show ?thesis by (simp add: drain_empty emit_def)
next
  case (Some d)
  then show ?thesis using assms by (simp add: drain_nonempty)
qed

text \<open>
  Claim C2. The buffer holds at most one descriptor (it is one optional value). While
  the render surface is not ready, a descriptor that arrives is stored and a second one
  overwrites it, with no other effect. At the drain that ends \<^verbatim>\<open>window.onload\<close>, on a ready
  surface, a stored descriptor is processed (the session is opened from it and no load
  request is made) and the buffer is set to empty; with an empty buffer the radar is
  requested by the page's id instead. Either way the buffer is empty afterwards.
\<close>

theorem pending_buffer_last_write_wins:
  "(\<not> renderer_is_ready st \<longrightarrow>
      radarLoaded e t1 (RDescriptor d1) st = Inr (st\<lparr>pendingRadarData := Some d1\<rparr>) \<and>
      radarLoaded e t2 (RDescriptor d2) (st\<lparr>pendingRadarData := Some d1\<rparr>) =
        Inr (st\<lparr>pendingRadarData := Some d2\<rparr>)) \<and>
   (renderer_is_ready s \<and> pendingRadarData s = Some d \<longrightarrow>
      drain_pending e t ident s =
        Inr ((open_session e t d (emit (ConsoleLog ''Processing deferred radar data'') s))
             \<lparr>pendingRadarData := None\<rparr>) \<and>
      filter is_load_call
        (calls_since s
           (open_session e t d (emit (ConsoleLog ''Processing deferred radar data'') s))) = []) \<and>
   (pendingRadarData s = None \<longrightarrow> drain_pending e t ident s = Inr (emit (LoadRadar ident) s)) \<and>
   (renderer_is_ready s \<longrightarrow>
      (case drain_pending e t ident s of
         Inl x \<Rightarrow> False
       | Inr s' \<Rightarrow> pendingRadarData s' = None))"
proof -
  have arrivals: "\<not> renderer_is_ready st \<longrightarrow>
      radarLoaded e t1 (RDescriptor d1) st = Inr (st\<lparr>pendingRadarData := Some d1\<rparr>) \<and>
      radarLoaded e t2 (RDescriptor d2) (st\<lparr>pendingRadarData := Some d1\<rparr>) =
        Inr (st\<lparr>pendingRadarData := Some d2\<rparr>)"
    by (simp add: radarLoaded_def renderer_is_ready_def)
  show ?thesis
    using arrivals drain_nonempty [of s d e t ident] drain_empty [of s e t ident]
      drain_no_load [of s e t d] drain_leaves_empty [of s e t ident]
    by blast
qed

text \<open>Two descriptors before the surface is ready, then the drain; and the drain of an empty buffer.\<close>

theorem pending_buffer_last_write_wins_witness:
  "\<not> renderer_is_ready initial_state \<and>
   radarLoaded example_env 0 (RDescriptor (example_descriptor ''r1'')) initial_state =
     Inr (initial_state\<lparr>pendingRadarData := Some (example_descriptor ''r1'')\<rparr>) \<and>
   radarLoaded example_env 1 (RDescriptor (example_descriptor ''r2''))
       (initial_state\<lparr>pendingRadarData := Some (example_descriptor ''r1'')\<rparr>) =
     Inr (initial_state\<lparr>pendingRadarData := Some (example_descriptor ''r2'')\<rparr>) \<and>
   renderer_is_ready
     (initial_state\<lparr>pendingRadarData := Some (example_descriptor ''r2''),
        renderer := Some \<lparr>ready = True\<rparr>\<rparr>) \<and>
   calls_since initial_state
     (case drain_pending example_env 2 (Some ''r1'')
        (initial_state\<lparr>pendingRadarData := Some (example_descriptor ''r2''),
           renderer := Some \<lparr>ready = True\<rparr>\<rparr>) of Inr s' \<Rightarrow> s' | Inl x \<Rightarrow> initial_state) =
     [ConsoleLog ''Processing deferred radar data'',
      SetLegend (buildMayaraLegend (Some (Fin 16))), SetSpokes 2048 1024,
      SetPixelValues (Some (Fin 16)), SetBrand ''Navico'',
      ConsoleLog ''Connecting to radar stream: ws://localhost:6502/signalk/v2/api/vessels/self/radars/r2/stream'',
      NewWebSocket ''ws://localhost:6502/signalk/v2/api/vessels/self/radars/r2/stream''] \<and>
   pendingRadarData (initial_state\<lparr>renderer := Some \<lparr>ready = True\<rparr>\<rparr>) = None \<and>
   drain_pending example_env 2 (Some ''r1'') (initial_state\<lparr>renderer := Some \<lparr>ready = True\<rparr>\<rparr>) =
     Inr (emit (LoadRadar (Some ''r1'')) (initial_state\<lparr>renderer := Some \<lparr>ready = True\<rparr>\<rparr>))"
proof -
  let ?full = "initial_state\<lparr>pendingRadarData := Some (example_descriptor ''r2''),
        renderer := Some \<lparr>ready = True\<rparr>\<rparr>"
  let ?emp = "initial_state\<lparr>renderer := Some \<lparr>ready = True\<rparr>\<rparr>"
  have h1: "\<not> renderer_is_ready initial_state"
    by (simp add: renderer_is_ready_def initial_state_def)
  have h2: "renderer_is_ready ?full" by (simp add: renderer_is_ready_def)
  have h3: "pendingRadarData ?full = Some (example_descriptor ''r2'')" by simp
  have h4: "pendingRadarData ?emp = None" by (simp add: initial_state_def)
  note a = pending_buffer_last_write_wins [of initial_state example_env 0
      "example_descriptor ''r1''" 1 "example_descriptor ''r2''" ?full "example_descriptor ''r2''"
      2 "Some ''r1''"]
  note b = pending_buffer_last_write_wins [of initial_state example_env 0
      "example_descriptor ''r1''" 1 "example_descriptor ''r2''" ?emp "example_descriptor ''r2''"
      2 "Some ''r1''"]
  have d: "drain_pending example_env 2 (Some ''r1'') ?full =
      Inr ((open_session example_env 2 (example_descriptor ''r2'')
             (emit (ConsoleLog ''Processing deferred radar data'') ?full))
           \<lparr>pendingRadarData := None\<rparr>)"
    using a h2 h3 by blast
  have cs: "calls_since initial_state
      ((open_session example_env 2 (example_descriptor ''r2'')
             (emit (ConsoleLog ''Processing deferred radar data'') ?full))
           \<lparr>pendingRadarData := None\<rparr>) =
     [ConsoleLog ''Processing deferred radar data'',
      SetLegend (buildMayaraLegend (Some (Fin 16))), SetSpokes 2048 1024,
      SetPixelValues (Some (Fin 16)), SetBrand ''Navico'',
      ConsoleLog ''Connecting to radar stream: ws://localhost:6502/signalk/v2/api/vessels/self/radars/r2/stream'',
      NewWebSocket ''ws://localhost:6502/signalk/v2/api/vessels/self/radars/r2/stream'']"
    by (simp add: open_session_def calls_since_def emit_def initial_state_def Let_def
        example_descriptor_def example_env_def resolve_streamUrl_def)
  have e: "drain_pending example_env 2 (Some ''r1'') ?emp = Inr (emit (LoadRadar (Some ''r1'')) ?emp)"
    using b h4 by blast
  have a1: "radarLoaded example_env 0 (RDescriptor (example_descriptor ''r1'')) initial_state =
     Inr (initial_state\<lparr>pendingRadarData := Some (example_descriptor ''r1'')\<rparr>)"
    and a2: "radarLoaded example_env 1 (RDescriptor (example_descriptor ''r2''))
       (initial_state\<lparr>pendingRadarData := Some (example_descriptor ''r1'')\<rparr>) =
     Inr (initial_state\<lparr>pendingRadarData := Some (example_descriptor ''r2'')\<rparr>)"
    using a h1 by blast+
  show ?thesis
    unfolding d using h1 h2 h4 a1 a2 cs e by simp
qed


section \<open>Properties of the spoke stream session\<close>

lemma calls_emit [simp]: "calls (emit c st) = calls st @ [c]"
  by (simp add: emit_def)

lemma dispatch_spoke_calls:
  "calls (dispatch_spoke rr s st) = calls st @ spoke_calls rr (calls st) s"
  by (simp add: dispatch_spoke_def spoke_calls_def Let_def)

lemma dispatch_spokes_append:
  "dispatch_spokes rr (xs @ ys) st = dispatch_spokes rr ys (dispatch_spokes rr xs st)"
  by (induction xs arbitrary: st) simp_all

lemma dispatch_spokes_step:
  assumes "i < length spokes"
  shows "calls (dispatch_spokes rr (take (Suc i) spokes) st) =
           calls (dispatch_spokes rr (take i spokes) st) @
           spoke_calls rr (calls (dispatch_spokes rr (take i spokes) st)) (spokes ! i)"
proof -
  have "take (Suc i) spokes = take i spokes @ [spokes ! i]"
    using assms by (simp add: take_Suc_conv_app_nth)
  then show ?thesis
    by (simp add: dispatch_spokes_append dispatch_spoke_calls)
qed

lemma drawn_spokes_append: "drawn_spokes (xs @ ys) = drawn_spokes xs @ drawn_spokes ys"
  by (induction xs rule: drawn_spokes.induct) simp_all

lemma current_ranges_append: "current_ranges (xs @ ys) = current_ranges xs @ current_ranges ys"
  by (induction xs rule: current_ranges.induct) simp_all

lemma spoke_calls_drawn: "drawn_spokes (spoke_calls rr before s) = [s]"
  by (simp add: spoke_calls_def)

lemma spoke_calls_current:
  "current_ranges (spoke_calls rr before s) = (if 0 < sp_range s then [num (sp_range s)] else [])"
  by (simp add: spoke_calls_def)

lemma spoke_calls_no_render: "count_list (spoke_calls rr before s) Render = 0"
  by (simp add: spoke_calls_def)

lemma dispatch_spokes_calls:
  "\<exists>new. calls (dispatch_spokes rr spokes st) = calls st @ new \<and>
         drawn_spokes new = spokes \<and>
         current_ranges new = map (\<lambda>s. num (sp_range s)) (filter (\<lambda>s. 0 < sp_range s) spokes) \<and>
         count_list new Render = 0"
proof (induction spokes arbitrary: st)
  case Nil
  show ?case by simp
next
  case (Cons s spokes)
  from Cons [of "dispatch_spoke rr s st"] obtain new where
    new: "calls (dispatch_spokes rr spokes (dispatch_spoke rr s st)) =
            calls (dispatch_spoke rr s st) @ new"
      "drawn_spokes new = spokes"
      "current_ranges new = map (\<lambda>s. num (sp_range s)) (filter (\<lambda>s. 0 < sp_range s) spokes)"
      "count_list new Render = 0"
    by blast
  let ?new = "spoke_calls rr (calls st) s @ new"
  have "calls (dispatch_spokes rr (s # spokes) st) = calls st @ ?new"
    using new(1) by (simp add: dispatch_spoke_calls)
  moreover have "drawn_spokes ?new = s # spokes"
    using new(2) by (simp add: drawn_spokes_append spoke_calls_drawn)
  moreover have "current_ranges ?new =
      map (\<lambda>s. num (sp_range s)) (filter (\<lambda>s. 0 < sp_range s) (s # spokes))"
    using new(3) by (simp add: current_ranges_append spoke_calls_current)
  moreover have "count_list ?new Render = 0"
    using new(4) spoke_calls_no_render [of rr "calls st" s] by (simp add: count_list_append del: count_list.simps)
  ultimately show ?case by blast
qed

lemma onmessage_decoded:
  assumes "data \<noteq> []" and "RadarMessage st = Some decode" and "decode data = Inr spokes"
    and "spokes \<noteq> []"
  shows "onmessage rr now data st = emit Render (dispatch_spokes rr spokes (count_message now st))"
proof -
  have "RadarMessage (count_message now st) = Some decode"
    using assms(2) by (simp add: count_message_def Let_def emit_def)
  then show ?thesis
    using assms by (simp add: onmessage_def onmessage_try_def Let_def)
qed

text \<open>
  Claim C1. For a frame whose decoded message contains spokes, the handler's calls
  after the message counter are the calls of the spokes followed by one \<^verbatim>\<open>render\<close>:
  the spokes drawn are the frame's spokes in their order; \<^verbatim>\<open>setCurrentRange\<close> is called
  with the range of every spoke of positive range, in order; \<^verbatim>\<open>render\<close> is called once,
  last; and the calls for the spoke at each index are \<open>spoke_calls\<close>: its draw, then
  \<^verbatim>\<open>setRange\<close> exactly when its range is positive and differs from the range the surface
  holds then, then \<^verbatim>\<open>setCurrentRange\<close> when its range is positive.
\<close>

theorem onmessage_dispatch:
  assumes "data \<noteq> []" and "RadarMessage st = Some decode" and "decode data = Inr spokes"
    and "spokes \<noteq> []"
  shows "calls (onmessage rr now data st) =
           calls (dispatch_spokes rr spokes (count_message now st)) @ [Render] \<and>
         calls (onmessage rr now data st) =
           calls (count_message now st) @
           calls_since (count_message now st) (onmessage rr now data st) \<and>
         drawn_spokes (calls_since (count_message now st) (onmessage rr now data st)) = spokes \<and>
         current_ranges (calls_since (count_message now st) (onmessage rr now data st)) =
           map (\<lambda>s. num (sp_range s)) (filter (\<lambda>s. 0 < sp_range s) spokes) \<and>
         count_list (calls_since (count_message now st) (onmessage rr now data st)) Render = 1 \<and>
         (\<forall>i<length spokes.
            calls (dispatch_spokes rr (take (Suc i) spokes) (count_message now st)) =
              calls (dispatch_spokes rr (take i spokes) (count_message now st)) @
              spoke_calls rr (calls (dispatch_spokes rr (take i spokes) (count_message now st)))
                (spokes ! i))"
proof -
  define st1 where "st1 = count_message now st"
  define st' where "st' = onmessage rr now data st"
  have eq: "st' = emit Render (dispatch_spokes rr spokes st1)"
    unfolding st'_def st1_def by (rule onmessage_decoded [OF assms])
  obtain new where new: "calls (dispatch_spokes rr spokes st1) = calls st1 @ new"
      "drawn_spokes new = spokes"
      "current_ranges new = map (\<lambda>s. num (sp_range s)) (filter (\<lambda>s. 0 < sp_range s) spokes)"
      "count_list new Render = 0"
    using dispatch_spokes_calls [of rr spokes st1] by blast
  have since: "calls_since st1 st' = new @ [Render]"
    by (simp add: calls_since_def eq new(1))
  have 1: "calls st' = calls (dispatch_spokes rr spokes st1) @ [Render]"
    by (simp add: eq)
  have 2: "calls st' = calls st1 @ calls_since st1 st'"
    unfolding since by (simp add: eq new(1))
  have 3: "drawn_spokes (calls_since st1 st') = spokes"
    by (simp add: since drawn_spokes_append new(2))
  have 4: "current_ranges (calls_since st1 st') =
           map (\<lambda>s. num (sp_range s)) (filter (\<lambda>s. 0 < sp_range s) spokes)"
    by (simp add: since current_ranges_append new(3))
  have 5: "count_list (calls_since st1 st') Render = 1"
    using new(4) by (simp add: since count_list_append del: count_list.simps) simp
  have 6: "\<forall>i<length spokes.
            calls (dispatch_spokes rr (take (Suc i) spokes) st1) =
              calls (dispatch_spokes rr (take i spokes) st1) @
              spoke_calls rr (calls (dispatch_spokes rr (take i spokes) st1)) (spokes ! i)"
    by (simp add: dispatch_spokes_step)
  show ?thesis
    using 1 2 3 4 5 6 unfolding st1_def st'_def by blast
qed

theorem onmessage_dispatch_witness:
  "[7] \<noteq> ([] :: nat list) \<and> RadarMessage example_state = Some example_decode \<and>
   example_decode [7] = Inr example_spokes \<and> example_spokes \<noteq> [] \<and>
   drawn_spokes (calls_since (count_message 1000 example_state)
      (onmessage last_set_range 1000 [7] example_state)) = example_spokes \<and>
   calls (onmessage last_set_range 1000 [7] example_state) =
     [DrawSpoke (example_spoke 0 100), ConsoleLog ''Range update from spoke: 100 m'',
      SetRange (num 100), SetCurrentRange (num 100),
      DrawSpoke (example_spoke 1 100), SetCurrentRange (num 100),
      DrawSpoke (example_spoke 2 0), Render]"
proof -
  have h1: "[7] \<noteq> ([] :: nat list)" by simp
  have h2: "RadarMessage example_state = Some example_decode"
    by (simp add: example_state_def)
  have h3: "example_decode [7] = Inr example_spokes"
    by (simp add: example_decode_def)
  have h4: "example_spokes \<noteq> []"
    by (simp add: example_spokes_def)
  have c: "calls (count_message 1000 example_state) = []"
    by (simp add: count_message_def example_state_def initial_state_def Let_def)
  have s100: "int_str 100 = ''100''" by code_simp
  have run: "calls (dispatch_spokes last_set_range example_spokes (count_message 1000 example_state)) =
     [DrawSpoke (example_spoke 0 100), ConsoleLog ''Range update from spoke: 100 m'',
      SetRange (num 100), SetCurrentRange (num 100),
      DrawSpoke (example_spoke 1 100), SetCurrentRange (num 100),
      DrawSpoke (example_spoke 2 0)]"
    by (simp add: example_spokes_def dispatch_spoke_calls spoke_calls_def c example_spoke_def s100)
  show ?thesis
    using h1 h2 h3 h4 run onmessage_dispatch [OF h1 h2 h3 h4, of last_set_range 1000]
    by simp
qed


text \<open>The frames that carry nothing to the render surface.\<close>

lemma count_message_frame:
  "\<exists>new. calls (count_message now st) = calls st @ new \<and> list_all is_console new \<and>
         same_session st (count_message now st)"
  by (simp add: count_message_def same_session_def emit_def Let_def is_console_def
      split: option.splits)

lemma console_frame:
  assumes "is_console c"
  shows "same_session st (emit c (count_message now st)) \<and>
         calls (emit c (count_message now st)) =
           calls st @ calls_since st (emit c (count_message now st)) \<and>
         list_all is_console (calls_since st (emit c (count_message now st)))"
proof -
  obtain new where new: "calls (count_message now st) = calls st @ new"
      "list_all is_console new" "same_session st (count_message now st)"
    using count_message_frame by blast
  have "calls (emit c (count_message now st)) = calls st @ (new @ [c])"
    using new(1) by (simp add: emit_def)
  then have "calls_since st (emit c (count_message now st)) = new @ [c]"
    by (simp add: calls_since_def)
  with new assms show ?thesis
    by (simp add: same_session_def emit_def split: option.splits)
qed

lemma RadarMessage_count [simp]: "RadarMessage (count_message now st) = RadarMessage st"
  by (simp add: count_message_def Let_def emit_def)

lemma onmessage_empty:
  "onmessage rr now [] st = emit (ConsoleWarn ''WS message received with 0 bytes'') (count_message now st)"
  by (simp add: onmessage_def onmessage_try_def Let_def)

lemma onmessage_no_schema:
  assumes "data \<noteq> []" and "RadarMessage st = None"
  shows "onmessage rr now data st =
     emit (ConsoleWarn ''RadarMessage not loaded yet, dropping message'') (count_message now st)"
  using assms by (simp add: onmessage_def onmessage_try_def Let_def)

lemma onmessage_decode_error:
  assumes "data \<noteq> []" and "RadarMessage st = Some decode" and "decode data = Inl err"
  shows "onmessage_try rr now data st = (count_message now st, Some (DecodeError err))"
    and "onmessage rr now data st =
     emit (ConsoleError (''Error processing WebSocket message: '' @ err)) (count_message now st)"
  using assms by (simp_all add: onmessage_def onmessage_try_def Let_def)

lemma bad_frame_cases:
  assumes "bad_frame st data"
  obtains "data = []"
  | "data \<noteq> []" "RadarMessage st = None"
  | decode err where "data \<noteq> []" "RadarMessage st = Some decode" "decode data = Inl err"
  using assms by (auto simp: bad_frame_def split: option.splits sum.splits)

lemma onmessage_bad_frame:
  assumes "bad_frame st data"
  shows "same_session st (onmessage rr now data st) \<and>
         calls (onmessage rr now data st) = calls st @ calls_since st (onmessage rr now data st) \<and>
         list_all is_console (calls_since st (onmessage rr now data st))"
  using assms
proof (cases rule: bad_frame_cases)
  case 1
  have c: "is_console (ConsoleWarn ''WS message received with 0 bytes'')"
    by (simp add: is_console_def)
  show ?thesis
    unfolding 1 onmessage_empty by (rule console_frame [OF c])
next
  case 2
  have c: "is_console (ConsoleWarn ''RadarMessage not loaded yet, dropping message'')"
    by (simp add: is_console_def)
  show ?thesis
    unfolding onmessage_no_schema [OF 2] by (rule console_frame [OF c])
next
  case (3 decode err)
  have c: "is_console (ConsoleError (''Error processing WebSocket message: '' @ err))"
    by (simp add: is_console_def)
  show ?thesis
    unfolding onmessage_decode_error(2) [OF 3] by (rule console_frame [OF c])
qed

text \<open>
  Claim C3. No frame ends the session. The handler returns a state for every frame: a
  frame of zero bytes is answered by a warning alone; a frame that arrives before the
  schema is loaded is answered by a warning alone and kept nowhere; a decoder exception
  stops the \<^verbatim>\<open>try\<close> block and is logged by the \<^verbatim>\<open>catch\<close> clause. In each of these cases the
  calls made are console calls only and the session is as it was, and the frames that
  follow are handled from that state.
\<close>

theorem onmessage_bad_frames:
  "(data = [] \<longrightarrow>
      onmessage rr now data st =
        emit (ConsoleWarn ''WS message received with 0 bytes'') (count_message now st)) \<and>
   (data \<noteq> [] \<and> RadarMessage st = None \<longrightarrow>
      onmessage rr now data st =
        emit (ConsoleWarn ''RadarMessage not loaded yet, dropping message'')
          (count_message now st)) \<and>
   (data \<noteq> [] \<and> RadarMessage st = Some decode \<and> decode data = Inl err \<longrightarrow>
      onmessage_try rr now data st = (count_message now st, Some (DecodeError err)) \<and>
      onmessage rr now data st =
        emit (ConsoleError (''Error processing WebSocket message: '' @ err))
          (count_message now st)) \<and>
   (bad_frame st data \<longrightarrow>
      same_session st (onmessage rr now data st) \<and>
      calls (onmessage rr now data st) = calls st @ calls_since st (onmessage rr now data st) \<and>
      list_all is_console (calls_since st (onmessage rr now data st))) \<and>
   onmessages rr ((now, data) # rest) st = onmessages rr rest (onmessage rr now data st)"
  using onmessage_empty onmessage_no_schema onmessage_decode_error onmessage_bad_frame
  by simp

theorem onmessage_bad_frames_witness:
  "onmessage last_set_range 1000 [] example_state =
     emit (ConsoleWarn ''WS message received with 0 bytes'') (count_message 1000 example_state) \<and>
   [9] \<noteq> ([] :: nat list) \<and> RadarMessage initial_state = None \<and>
   onmessage last_set_range 1000 [9] initial_state =
     emit (ConsoleWarn ''RadarMessage not loaded yet, dropping message'')
       (count_message 1000 initial_state) \<and>
   RadarMessage example_state = Some example_decode \<and>
   example_decode [9] = Inl ''invalid wire type'' \<and>
   onmessage last_set_range 1000 [9] example_state =
     emit (ConsoleError ''Error processing WebSocket message: invalid wire type'')
       (count_message 1000 example_state) \<and>
   bad_frame example_state [9] \<and>
   same_session example_state (onmessage last_set_range 1000 [9] example_state) \<and>
   calls (onmessages last_set_range [(1000, [9]), (1001, [7])] example_state) =
     [ConsoleError ''Error processing WebSocket message: invalid wire type'',
      DrawSpoke (example_spoke 0 100), ConsoleLog ''Range update from spoke: 100 m'',
      SetRange (num 100), SetCurrentRange (num 100),
      DrawSpoke (example_spoke 1 100), SetCurrentRange (num 100),
      DrawSpoke (example_spoke 2 0), Render]"
proof -
  have h1: "[9] \<noteq> ([] :: nat list)" by simp
  have h2: "RadarMessage initial_state = None" by (simp add: initial_state_def)
  have h3: "RadarMessage example_state = Some example_decode" by (simp add: example_state_def)
  have h4: "example_decode [9] = Inl ''invalid wire type''" by (simp add: example_decode_def)
  have h5: "bad_frame example_state [9]" by (simp add: bad_frame_def h3 h4)
  note a = onmessage_bad_frames [of "[]" last_set_range 1000 example_state]
  note b = onmessage_bad_frames [of "[9]" last_set_range 1000 initial_state]
  note c = onmessage_bad_frames [of "[9]" last_set_range 1000 example_state example_decode
      "''invalid wire type''" "[(1001, [7])]"]
  have err: "onmessage last_set_range 1000 [9] example_state =
     emit (ConsoleError ''Error processing WebSocket message: invalid wire type'')
       (count_message 1000 example_state)"
    using c h1 h3 h4 by simp
  have s100: "int_str 100 = ''100''" by code_simp
  have cm: "count_message 1000 example_state = example_state\<lparr>messageCount := 1\<rparr>"
    by (simp add: count_message_def example_state_def initial_state_def Let_def)
  have d7: "example_decode [7] = Inr example_spokes" by (simp add: example_decode_def)
  have next_frame: "calls (onmessage last_set_range 1001 [7]
        (emit (ConsoleError ''Error processing WebSocket message: invalid wire type'')
          (example_state\<lparr>messageCount := 1\<rparr>))) =
     [ConsoleError ''Error processing WebSocket message: invalid wire type'',
      DrawSpoke (example_spoke 0 100), ConsoleLog ''Range update from spoke: 100 m'',
      SetRange (num 100), SetCurrentRange (num 100),
      DrawSpoke (example_spoke 1 100), SetCurrentRange (num 100),
      DrawSpoke (example_spoke 2 0), Render]"
    by (simp add: onmessage_def onmessage_try_def count_message_def Let_def emit_def
        example_state_def initial_state_def d7 example_spokes_def dispatch_spoke_def
        example_spoke_def s100)
  have two: "calls (onmessages last_set_range [(1000, [9]), (1001, [7])] example_state) =
     [ConsoleError ''Error processing WebSocket message: invalid wire type'',
      DrawSpoke (example_spoke 0 100), ConsoleLog ''Range update from spoke: 100 m'',
      SetRange (num 100), SetCurrentRange (num 100),
      DrawSpoke (example_spoke 1 100), SetCurrentRange (num 100),
      DrawSpoke (example_spoke 2 0), Render]"
    using c next_frame by (simp add: err cm)
  have e0: "onmessage last_set_range 1000 [] example_state =
     emit (ConsoleWarn ''WS message received with 0 bytes'') (count_message 1000 example_state)"
    using a by blast
  have e1: "onmessage last_set_range 1000 [9] initial_state =
     emit (ConsoleWarn ''RadarMessage not loaded yet, dropping message'')
       (count_message 1000 initial_state)"
    using b h1 h2 by blast
  have e2: "same_session example_state (onmessage last_set_range 1000 [9] example_state)"
    using c h5 by blast
  show ?thesis
    using e0 e1 e2 err h1 h2 h3 h4 h5 two by blast
qed


section \<open>Properties of the colour legend\<close>

lemma length_legend: "length (buildMayaraLegend arg) = 256"
  by (simp add: buildMayaraLegend_def)

lemma legend_nth:
  "i < 256 \<Longrightarrow> buildMayaraLegend arg ! i = legend_entry (clamp_pixelValues arg) i"
  by (simp add: buildMayaraLegend_def)

lemma legend_first: "buildMayaraLegend arg ! 0 = transparent_black"
  by (simp add: legend_nth legend_entry_def transparent_black_def)

lemma clamp_Some: "clamp_pixelValues (Some p) = (if js_lt p (Fin 2) then Fin 64 else p)"
  by (simp add: clamp_pixelValues_def)

lemma clamp_None: "clamp_pixelValues None = Fin 64"
  by (simp add: clamp_pixelValues_def)

lemma clamp_not_below_2: "\<not> js_lt (clamp_pixelValues arg) (Fin 2)"
  by (cases arg) (simp_all add: clamp_Some clamp_None)

text \<open>An index that is not below a count of at least 2 takes the last branch.\<close>

lemma legend_entry_overflow:
  assumes "\<not> js_lt p (Fin 2)" and "js_le p (Fin (of_nat i))"
  shows "legend_entry p i = saturated_red"
proof -
  from assms obtain q where q: "p = Fin q" "2 \<le> q" "q \<le> of_nat i"
    by (cases p) auto
  then have "i \<noteq> 0" by auto
  with q show ?thesis
    by (simp add: legend_entry_def saturated_red_def)
qed

text \<open>
  Claim C7. For every input, \<^verbatim>\<open>buildMayaraLegend\<close> returns 256 entries; entry 0 is
  \<open>[0,0,0,0]\<close>; every entry at an index greater than or equal to \<^verbatim>\<open>pixelValues\<close> is
  \<open>[255,0,0,255]\<close>, where \<^verbatim>\<open>pixelValues\<close> is the variable the loop reads: the input, or 64
  for an input below 2 (and for a call without the argument), which makes the legend
  of such an input the legend of 64. The three values the claim names are included.
\<close>

theorem buildMayaraLegend_shape:
  "length (buildMayaraLegend arg) = 256 \<and>
   buildMayaraLegend arg ! 0 = transparent_black \<and>
   (\<forall>i<256. js_le (clamp_pixelValues arg) (Fin (of_nat i)) \<longrightarrow>
      buildMayaraLegend arg ! i = saturated_red) \<and>
   (\<not> js_lt p (Fin 2) \<longrightarrow> clamp_pixelValues (Some p) = p) \<and>
   (js_lt p (Fin 2) \<longrightarrow>
      clamp_pixelValues (Some p) = Fin 64 \<and>
      buildMayaraLegend (Some p) = buildMayaraLegend (Some (Fin 64))) \<and>
   buildMayaraLegend None = buildMayaraLegend (Some (Fin 64)) \<and>
   buildMayaraLegend (Some (Fin 64)) ! 0 = transparent_black \<and>
   buildMayaraLegend (Some (Fin 64)) ! 63 = saturated_red \<and>
   buildMayaraLegend (Some (Fin 16)) ! 200 = saturated_red"
proof -
  have over: "\<forall>i<256. js_le (clamp_pixelValues arg) (Fin (of_nat i)) \<longrightarrow>
      buildMayaraLegend arg ! i = saturated_red"
    by (simp add: legend_nth legend_entry_overflow clamp_not_below_2)
  have keep: "\<not> js_lt p (Fin 2) \<longrightarrow> clamp_pixelValues (Some p) = p"
    by (simp add: clamp_Some)
  have small: "js_lt p (Fin 2) \<longrightarrow>
      clamp_pixelValues (Some p) = Fin 64 \<and>
      buildMayaraLegend (Some p) = buildMayaraLegend (Some (Fin 64))"
    by (simp add: buildMayaraLegend_def clamp_Some)
  have dflt: "buildMayaraLegend None = buildMayaraLegend (Some (Fin 64))"
    by (simp add: buildMayaraLegend_def clamp_Some clamp_None)
  have e63: "buildMayaraLegend (Some (Fin 64)) ! 63 = saturated_red"
    by (simp add: legend_nth legend_entry_def clamp_Some js_sub_def saturated_red_def)
  have e200: "buildMayaraLegend (Some (Fin 16)) ! 200 = saturated_red"
    by (simp add: legend_nth legend_entry_def clamp_Some js_sub_def saturated_red_def)
  show ?thesis
    using over keep small dflt e63 e200 by (simp only: length_legend legend_first simp_thms)
qed

theorem buildMayaraLegend_shape_witness:
  "length (buildMayaraLegend (Some (Fin 16))) = 256 \<and>
   buildMayaraLegend (Some (Fin 16)) ! 0 = transparent_black \<and>
   (200::nat) < 256 \<and> clamp_pixelValues (Some (Fin 16)) = Fin 16 \<and>
   js_le (clamp_pixelValues (Some (Fin 16))) (Fin (of_nat 200)) \<and>
   buildMayaraLegend (Some (Fin 16)) ! 200 = saturated_red \<and>
   js_lt (Fin 1) (Fin 2) \<and>
   buildMayaraLegend (Some (Fin 1)) = buildMayaraLegend (Some (Fin 64))"
proof -
  have a: "(200::nat) < 256" "\<not> js_lt (Fin 16) (Fin 2)"
    "js_le (clamp_pixelValues (Some (Fin 16))) (Fin (of_nat 200))"
    by (simp_all add: clamp_Some)
  have b: "js_lt (Fin 1) (Fin 2)" by simp
  show ?thesis
    using a b buildMayaraLegend_shape [of "Some (Fin 16)" "Fin 16"]
      buildMayaraLegend_shape [of "Some (Fin 1)" "Fin 1"]
    by blast
qed

text \<open>
  Claim C10, as stated, fails in one channel: at \<^verbatim>\<open>pixelValues = 2\<close> the entry at index 1
  has a NaN green channel, but its blue channel is the number 0.
\<close>

theorem legend_boundary_counterexample:
  "\<not> (buildMayaraLegend (Some (Fin 2)) ! 1 ! 1 = NaN \<and>
      buildMayaraLegend (Some (Fin 2)) ! 1 ! 2 = NaN)"
  by (simp add: legend_nth legend_entry_def clamp_Some js_sub_def)

text \<open>
  Claim C10, amended. The input 2 is not clamped; at index 1 the gradient parameter is
  \<open>0/0 = NaN\<close>, every comparison with it is false, so the last segment is taken and the
  entry is \<open>[255, NaN, 0, 255]\<close>: only the green channel is NaN.
\<close>

theorem legend_boundary:
  "clamp_pixelValues (Some (Fin 2)) = Fin 2 \<and>
   js_div (js_sub (Fin 1) (Fin 1)) (js_sub (clamp_pixelValues (Some (Fin 2))) (Fin 2)) = NaN \<and>
   buildMayaraLegend (Some (Fin 2)) ! 1 = [Fin 255, NaN, Fin 0, Fin 255]"
  by (simp add: legend_nth legend_entry_def clamp_Some js_sub_def)


section \<open>Properties of the zone tracker\<close>

lemma array_get_set: "array_get (array_set zs idx z) idx = z"
  by (simp add: array_get_def array_set_def nth_append)

lemma array_set_idem: "array_set (array_set zs idx z) idx z = array_set zs idx z"
proof (cases "idx < length zs")
  case True
  then show ?thesis by (simp add: array_set_def)
next
  case False
  define pre where "pre = zs @ replicate (idx - length zs) ZUndefined"
  have len: "length pre = idx" using False by (simp add: pre_def)
  have "array_set zs idx z = pre @ [z]"
    using False by (simp add: array_set_def pre_def)
  moreover have "array_set (pre @ [z]) idx z = pre @ [z]"
    using len by (auto simp: array_set_def)
  ultimately show ?thesis by simp
qed

lemma never_objects_get:
  "zones_never_objects zs \<Longrightarrow> array_get zs idx = ZUndefined \<or> array_get zs idx = ZNull"
  by (auto simp: zones_never_objects_def array_get_def list_all_length)

lemma zone_write_throws:
  "zones_never_objects zs \<Longrightarrow> zone_write zs idx se v = Inl TypeError"
  using never_objects_get [of zs idx] by (auto simp: zone_write_def)

lemma never_objects_set_null:
  "zones_never_objects zs \<Longrightarrow> zones_never_objects (array_set zs idx ZNull)"
  by (auto simp: zones_never_objects_def array_set_def list_all_length nth_list_update nth_append)

lemma control_range_zones [simp]:
  "noTransmitAngles (control_range pf c cv st) = noTransmitAngles st"
  by (simp add: control_range_def emit_def split: option.splits)

lemma control_power_zones [simp]:
  "noTransmitAngles (control_power e cv st) = noTransmitAngles st"
  by (simp add: control_power_def emit_def)

text \<open>
  No entry of \<^verbatim>\<open>noTransmitAngles\<close> is ever an object: the array starts empty and a
  control update that returns leaves \<^verbatim>\<open>undefined\<close> and \<^verbatim>\<open>null\<close> entries only.
\<close>

lemma initial_never_objects: "zones_never_objects (noTransmitAngles initial_state)"
  by (simp add: initial_state_def zones_never_objects_def)

lemma controlUpdate_never_objects:
  assumes "zones_never_objects (noTransmitAngles st)" and "controlUpdate pf e c cv st = Inr st'"
  shows "zones_never_objects (noTransmitAngles st')"
  using assms
  by (auto simp: controlUpdate_def control_no_transmit_def Let_def zone_write_throws
        never_objects_set_null split: option.splits sum.splits if_splits)

text \<open>So every enabled No Transmit update throws, whatever its zone, slot and value.\<close>

lemma enabled_update_throws:
  assumes "zones_never_objects (noTransmitAngles st)"
    and "n \<noteq> []" and "startsWith n ''No Transmit''" and "cv_enabled cv"
  shows "controlUpdate pf e (Some \<lparr>name = Some n\<rparr>) cv st = Inl TypeError"
  using assms
  by (simp add: controlUpdate_def control_no_transmit_def Let_def zone_write_throws)

text \<open>A disabled update sets the zone's entry to \<^verbatim>\<open>null\<close>, and doing so twice changes nothing more.\<close>

lemma disabled_update_clears:
  assumes "n \<noteq> []" and "startsWith n ''No Transmit''" and "\<not> cv_enabled cv"
  shows "\<exists>st'. controlUpdate pf e (Some \<lparr>name = Some n\<rparr>) cv st = Inr st' \<and>
           array_get (noTransmitAngles st') (extractNoTxZone n) = ZNull \<and>
           noTransmitAngles st' = array_set (noTransmitAngles st) (extractNoTxZone n) ZNull"
  using assms
  by (simp add: controlUpdate_def control_no_transmit_def Let_def array_get_set)

lemma extract_examples:
  "extractNoTxZone ''No Transmit start 1'' = 1"
  "extractNoTxZone ''No Transmit 12 end 3'' = 12"
  "extractNoTxZone ''No Transmit end'' = 0"
  "extractStartOrEnd ''No Transmit start 1'' = 0"
  "extractStartOrEnd ''No Transmit end 1'' = 1"
  by code_simp+

text \<open>
  Claim C8 does not hold of the code: the first enabled update of a page, here for the
  start of zone 1, does not write its value but throws a \<^verbatim>\<open>TypeError\<close>, because
  \<^verbatim>\<open>noTransmitAngles[1]\<close> is \<^verbatim>\<open>undefined\<close>.
\<close>

theorem controlUpdate_enabled_throws:
  "controlUpdate pf e (Some \<lparr>name = Some ''No Transmit start 1''\<rparr>)
     \<lparr>cv_id = ''noTransmitStart1'', cv_value = ''10'', cv_enabled = True\<rparr> initial_state
   = Inl TypeError"
  by (simp add: enabled_update_throws initial_never_objects)


section \<open>Properties of the background overlay\<close>

lemma typeof_never_array: "typeof v \<noteq> ''array''"
  by (cases v) simp_all

text \<open>The callback itself would draw an arc for a zone with a start angle.\<close>

lemma zone_arc_draws: "zone_arc obj (Zone (Some (Fin 10)) (Some (Fin 20))) \<noteq> []"
  by simp

text \<open>
  Claim C9. \<^verbatim>\<open>typeof\<close> yields \<^verbatim>\<open>"array"\<close> for no value, so for every value of
  \<^verbatim>\<open>noTransmitAngles\<close>, and every array of zones in particular, \<^verbatim>\<open>drawBackground\<close> makes
  the same six calls: it clears the canvas and writes the title, and draws no arc.
\<close>

theorem drawBackground_no_overlay:
  "typeof v \<noteq> ''array'' \<and>
   drawBackground v obj txt =
     Inr [SetTransform 1 0 0 1 0 0, ClearRect (Fin 0) (Fin 0) (width obj) (height obj),
          FillStyle ''lightgrey'', FillStyle ''lightblue'',
          Font ''bold 16px/1 Verdana, Geneva, sans-serif'', FillText txt 5 20] \<and>
   drawBackground (Array zs) obj txt = drawBackground (Array []) obj txt \<and>
   (case drawBackground (Array zs) obj txt of
      Inl x \<Rightarrow> False
    | Inr cs \<Rightarrow> filter is_arc_call cs = [])"
  by (simp add: drawBackground_def typeof_never_array is_arc_call_def)


end
